theory Spec2Isabelle
  imports Main "HOL-Library.AList"
begin

section \<open>Errors and thrown values (src/common/errors)\<close>

text \<open>
  JavaScript can throw any value, and a promise can reject with any value. The plugin core
  raises its two error classes itself; what plugin code, listeners, the file system and
  the module loader throw reaches it as a caught value, of which it reads only
  \<^verbatim>\<open>message\<close>, \<^verbatim>\<open>instanceof Error\<close> and \<^verbatim>\<open>String(error)\<close>.
  So a thrown value is one of: the two plugin errors (plugin name, hook, and the message
  argument of the constructor), a \<open>TypeError\<close> or any other \<open>Error\<close> object with its
  message, \<^verbatim>\<open>undefined\<close>, \<^verbatim>\<open>null\<close>, or any other value that is not an
  \<open>Error\<close>, given by its \<^verbatim>\<open>message\<close> property (\<open>None\<close> when it has none)
  and by \<^verbatim>\<open>String(value)\<close>.
\<close>

datatype error =
    PluginLoadError string string
  | PluginLifecycleError string string string
  | TypeError string
  | Error string
  | Undefined
  | Null
  | Value "string option" string

text \<open>
  The constructors of the two classes, with the default of their message parameter:
  \<^verbatim>\<open>constructor(pluginName: string, message: string = 'Failed to load plugin')\<close> and
  \<^verbatim>\<open>constructor(pluginName: string, hook: string, message: string = 'Lifecycle hook
  failed')\<close>. The default applies when the argument is \<^verbatim>\<open>undefined\<close>.
\<close>

definition newPluginLoadError :: "string \<Rightarrow> string option \<Rightarrow> error" where
  "newPluginLoadError pluginName msg =
     PluginLoadError pluginName
       (case msg of None \<Rightarrow> ''Failed to load plugin'' | Some m \<Rightarrow> m)"

definition newPluginLifecycleError :: "string \<Rightarrow> string \<Rightarrow> string option \<Rightarrow> error" where
  "newPluginLifecycleError pluginName hook msg =
     PluginLifecycleError pluginName hook
       (case msg of None \<Rightarrow> ''Lifecycle hook failed'' | Some m \<Rightarrow> m)"

text \<open>
  The message with which the runtime refuses to read a property of \<^verbatim>\<open>undefined\<close>
  or \<^verbatim>\<open>null\<close>.
\<close>

definition cannotRead :: "string \<Rightarrow> string" where
  "cannotRead v =
     ''Cannot read properties of '' @ v @ '' (reading '' @ [CHR 0x27] @ ''message''
       @ [CHR 0x27] @ '')''"

text \<open>
  \<^verbatim>\<open>(error as Error).message\<close> on a caught value: it throws a \<open>TypeError\<close> on
  \<^verbatim>\<open>undefined\<close> and \<^verbatim>\<open>null\<close>, and is \<^verbatim>\<open>undefined\<close> (\<open>None\<close>) on
  a value without the property. The messages of the plugin errors are
  \<^verbatim>\<open>`${message}: ${pluginName}`\<close> and \<^verbatim>\<open>`${message} (${hook}): ${pluginName}`\<close>.
\<close>

fun messageOf :: "error \<Rightarrow> error + string option" where
  "messageOf Undefined = Inl (TypeError (cannotRead ''undefined''))"
| "messageOf Null = Inl (TypeError (cannotRead ''null''))"
| "messageOf (Value msg str) = Inr msg"
| "messageOf (PluginLoadError pluginName msg) = Inr (Some (msg @ '': '' @ pluginName))"
| "messageOf (PluginLifecycleError pluginName hook msg) =
     Inr (Some (msg @ '' ('' @ hook @ ''): '' @ pluginName))"
| "messageOf (TypeError msg) = Inr (Some msg)"
| "messageOf (Error msg) = Inr (Some msg)"

text \<open>
  \<^verbatim>\<open>throw new X(..., (error as Error).message)\<close> in a handler: what is thrown is
  the new error, or the \<open>TypeError\<close> of reading the message.
\<close>

definition rethrow :: "(string option \<Rightarrow> error) \<Rightarrow> error \<Rightarrow> error" where
  "rethrow mk e = (case messageOf e of Inl t \<Rightarrow> t | Inr msg \<Rightarrow> mk msg)"

text \<open>\<^verbatim>\<open>error instanceof Error ? error : new Error(String(error))\<close>\<close>

fun asError :: "error \<Rightarrow> error" where
  "asError Undefined = Error ''undefined''"
| "asError Null = Error ''null''"
| "asError (Value msg str) = Error str"
| "asError e = e"

section \<open>Data model (src/core/types.ts)\<close>

datatype PluginState = UNLOADED | LOADED | ENABLED | DISABLED | ERROR

record PluginMetadata =
  name :: string
  version :: string
  description :: "string option"
  enabled :: bool
  author :: "string option"

datatype hook_name = OnLoad | OnEnable | OnDisable | OnUnload

datatype event_name =
    AuthUserCreated | AuthUserLoggedIn | AuthUserLoggedOut | AuthPasswordChanged
  | PluginLoaded | PluginEnabled | PluginDisabled | PluginUnloaded
  | SystemShutdown | SystemHealthCheck
  | Custom string

type_synonym payload = "(string \<times> string) list"

text \<open>
  What the outside can observe of a run: which hook of which instance was invoked, which
  event was emitted, and which listener it was delivered to. An instance is identified
  by its address in the object store, a listener by the number of its registration.
\<close>

datatype action =
    HookCall nat hook_name
  | Emit event_name payload
  | Deliver nat event_name payload

text \<open>
  A lifecycle hook is plugin code. The lifecycle manager awaits its promise and sees only
  whether it resolves (\<open>None\<close>) or rejects (\<open>Some e\<close>, with \<open>e\<close> the value of
  the rejection); the outcome may depend on everything that happened before. A listener on
  the event bus is observed in the same way: it returns or throws. Hooks and listeners
  that call back into the lifecycle manager are outside this model.
\<close>

type_synonym behaviour = "action list \<Rightarrow> error option"

record Plugin =
  name :: string
  version :: string
  onLoad :: "behaviour option"
  onEnable :: "behaviour option"
  onDisable :: "behaviour option"
  onUnload :: "behaviour option"

text \<open>
  The \<^verbatim>\<open>context\<close> field of an instance (handles to database, cache, bus and
  logger, and the metadata again) is created once and never read by the core; it is left
  out.
\<close>

record PluginInstance =
  plugin :: Plugin
  metadata :: PluginMetadata
  state :: PluginState
  path :: string

record PluginLoadResult =
  success :: bool
  pluginName :: string
  error :: "error option"

record listener =
  lid :: nat
  once :: bool
  run :: behaviour

section \<open>The process state\<close>

text \<open>
  The registry is a JavaScript \<^verbatim>\<open>Map<string, PluginInstance>\<close>: insertion
  ordered, and its values are references to mutable instance objects. The objects live in
  \<open>heap\<close>; \<open>plugins\<close> maps a name to an address. \<open>listeners\<close> is the listener
  table of the singleton \<^verbatim>\<open>pluginEvents\<close>, in registration order. \<open>trace\<close>
  records the observable actions, and \<open>calls\<close> the names \<^verbatim>\<open>unloadPlugin\<close>
  was called with, in call order (both are instrumentation, never read by the core).
\<close>

record world =
  heap :: "nat \<Rightarrow> PluginInstance"
  nextAddr :: nat
  plugins :: "(string \<times> nat) list"
  listeners :: "(event_name \<times> listener) list"
  trace :: "action list"
  calls :: "string list"

text \<open>A computation that may throw: the error or the value, and the state it leaves.\<close>

type_synonym 'a io = "world \<Rightarrow> (error + 'a) \<times> world"

definition ret :: "'a \<Rightarrow> 'a io" where
  "ret x w = (Inr x, w)"

definition throw :: "error \<Rightarrow> 'a io" where
  "throw e w = (Inl e, w)"

definition andThen :: "'a io \<Rightarrow> ('a \<Rightarrow> 'b io) \<Rightarrow> 'b io" where
  "andThen m f w = (case m w of (Inl e, w') \<Rightarrow> (Inl e, w') | (Inr x, w') \<Rightarrow> f x w')"

definition tryCatch :: "'a io \<Rightarrow> (error \<Rightarrow> 'a io) \<Rightarrow> 'a io" where
  "tryCatch m h w = (case m w of (Inl e, w') \<Rightarrow> h e w' | (Inr x, w') \<Rightarrow> (Inr x, w'))"

definition setState :: "nat \<Rightarrow> PluginState \<Rightarrow> world \<Rightarrow> world" where
  "setState a st w = w\<lparr>heap := (heap w)(a := (heap w a)\<lparr>state := st\<rparr>)\<rparr>"

section \<open>Event bus (src/shared/events/index.ts)\<close>

text \<open>
  \<^verbatim>\<open>emitEvent\<close> is \<^verbatim>\<open>return this.emit(event, payload)\<close>, with no handler
  around it. \<^verbatim>\<open>emit\<close> is Node's \<^verbatim>\<open>EventEmitter.emit\<close>, which is not part of
  the repository; \<open>invoke\<close> follows its documented behaviour: the listeners registered
  for the event at the time of the call are invoked synchronously in registration order, a
  one-shot listener is removed before it is invoked, an exception thrown by a listener
  propagates to the caller of \<^verbatim>\<open>emit\<close> (the listeners after it are not invoked),
  and the result is whether the event had listeners. The event names are the keys of
  \<^verbatim>\<open>PluginEvents\<close>, so Node's special treatment of the name \<^verbatim>\<open>error\<close>
  never applies.
\<close>

fun invoke :: "event_name \<Rightarrow> payload \<Rightarrow> listener list \<Rightarrow> unit io" where
  "invoke ev p [] w = (Inr (), w)"
| "invoke ev p (l # ls) w =
     (let w1 = (if once l
                then w\<lparr>listeners := filter (\<lambda>(e, x). lid x \<noteq> lid l) (listeners w)\<rparr>
                else w);
          w2 = w1\<lparr>trace := trace w1 @ [Deliver (lid l) ev p]\<rparr>
      in case run l (trace w) of
           Some e \<Rightarrow> (Inl e, w2)
         | None \<Rightarrow> invoke ev p ls w2)"

definition listenersOf :: "event_name \<Rightarrow> world \<Rightarrow> listener list" where
  "listenersOf ev w = map snd (filter (\<lambda>(e, x). e = ev) (listeners w))"

definition emitEvent :: "event_name \<Rightarrow> payload \<Rightarrow> bool io" where
  "emitEvent ev p w =
     (let ls = listenersOf ev w;
          w0 = w\<lparr>trace := trace w @ [Emit ev p]\<rparr>
      in andThen (invoke ev p ls) (\<lambda>_. ret (ls \<noteq> [])) w0)"

section \<open>Plugin registry (PluginRegistryImpl)\<close>

definition get :: "string \<Rightarrow> world \<Rightarrow> nat option" where
  "get n w = map_of (plugins w) n"

definition getAll :: "world \<Rightarrow> nat list" where
  "getAll w = map snd (plugins w)"

definition getEnabled :: "world \<Rightarrow> nat list" where
  "getEnabled w = filter (\<lambda>a. state (heap w a) = ENABLED) (getAll w)"

definition has :: "string \<Rightarrow> world \<Rightarrow> bool" where
  "has n w = (n \<in> fst ` set (plugins w))"

text \<open>
  \<^verbatim>\<open>Map.set\<close> keeps the position of a key that is already present and appends a
  new key at the end, which is \<open>AList.update\<close>; \<^verbatim>\<open>Map.delete\<close> is
  \<open>AList.delete\<close>.
\<close>

definition register :: "nat \<Rightarrow> world \<Rightarrow> world" where
  "register a w =
     w\<lparr>plugins := AList.update (PluginMetadata.name (metadata (heap w a))) a (plugins w)\<rparr>"

definition unregister :: "string \<Rightarrow> world \<Rightarrow> world" where
  "unregister n w = w\<lparr>plugins := AList.delete n (plugins w)\<rparr>"

section \<open>Lifecycle manager\<close>

text \<open>
  Every handler of the lifecycle manager is
  \<^verbatim>\<open>instance.state = PluginState.ERROR; throw new X(..., (error as Error).message)\<close>:
  the state is set first, then \<open>rethrow\<close> decides what is thrown.
\<close>

text \<open>\<^verbatim>\<open>if (plugin.onX) { await plugin.onX(context); }\<close>\<close>

definition runHook :: "nat \<Rightarrow> hook_name \<Rightarrow> behaviour option \<Rightarrow> unit io" where
  "runHook a h hk w =
     (case hk of
        None \<Rightarrow> (Inr (), w)
      | Some f \<Rightarrow>
          (let w' = w\<lparr>trace := trace w @ [HookCall a h]\<rparr>
           in case f (trace w) of
                None \<Rightarrow> (Inr (), w')
              | Some e \<Rightarrow> (Inl e, w')))"

definition loadPlugin :: "Plugin \<Rightarrow> PluginMetadata \<Rightarrow> string \<Rightarrow> nat io" where
  "loadPlugin pl md pluginPath w =
     (let a = nextAddr w;
          inst = \<lparr>plugin = pl, metadata = md, state = UNLOADED, path = pluginPath\<rparr>;
          w0 = w\<lparr>heap := (heap w)(a := inst), nextAddr := Suc a\<rparr>
      in tryCatch
           (andThen (runHook a OnLoad (onLoad pl)) (\<lambda>_.
            andThen (\<lambda>s. (Inr (), register a (setState a LOADED s))) (\<lambda>_.
            andThen (emitEvent PluginLoaded
                       [(''name'', PluginMetadata.name md),
                        (''version'', PluginMetadata.version md)]) (\<lambda>_.
            ret a))))
           (\<lambda>e s. (Inl (rethrow (newPluginLoadError (PluginMetadata.name md)) e),
                    setState a ERROR s))
           w0)"

definition enablePlugin :: "string \<Rightarrow> unit io" where
  "enablePlugin n w =
     (case get n w of
        None \<Rightarrow> (Inl (PluginLoadError n ''Plugin not found''), w)
      | Some a \<Rightarrow>
          if state (heap w a) = ENABLED then (Inr (), w)
          else tryCatch
                 (andThen (runHook a OnEnable (onEnable (plugin (heap w a)))) (\<lambda>_.
                  andThen (\<lambda>s. (Inr (), setState a ENABLED s)) (\<lambda>_.
                  andThen (emitEvent PluginEnabled [(''name'', n)]) (\<lambda>_.
                  ret ()))))
                 (\<lambda>e s. (Inl (rethrow (newPluginLifecycleError n ''onEnable'') e),
                          setState a ERROR s))
                 w)"

definition disablePlugin :: "string \<Rightarrow> unit io" where
  "disablePlugin n w =
     (case get n w of
        None \<Rightarrow> (Inl (PluginLoadError n ''Plugin not found''), w)
      | Some a \<Rightarrow>
          if state (heap w a) = DISABLED \<or> state (heap w a) = LOADED then (Inr (), w)
          else tryCatch
                 (andThen (runHook a OnDisable (onDisable (plugin (heap w a)))) (\<lambda>_.
                  andThen (\<lambda>s. (Inr (), setState a DISABLED s)) (\<lambda>_.
                  andThen (emitEvent PluginDisabled [(''name'', n)]) (\<lambda>_.
                  ret ()))))
                 (\<lambda>e s. (Inl (rethrow (newPluginLifecycleError n ''onDisable'') e),
                          setState a ERROR s))
                 w)"

text \<open>
  The first step of the model of \<^verbatim>\<open>unloadPlugin\<close> notes the call in
  \<open>calls\<close>; the rest follows the source.
\<close>

definition unloadPlugin :: "string \<Rightarrow> unit io" where
  "unloadPlugin n w =
     (let w0 = w\<lparr>calls := calls w @ [n]\<rparr>
      in case get n w0 of
           None \<Rightarrow> (Inr (), w0)
         | Some a \<Rightarrow>
             tryCatch
               (andThen (\<lambda>s. if state (heap s a) = ENABLED then disablePlugin n s
                              else (Inr (), s)) (\<lambda>_.
                andThen (runHook a OnUnload (onUnload (plugin (heap w0 a)))) (\<lambda>_.
                andThen (\<lambda>s. (Inr (), unregister n (setState a UNLOADED s))) (\<lambda>_.
                andThen (emitEvent PluginUnloaded [(''name'', n)]) (\<lambda>_.
                ret ())))))
               (\<lambda>e s. (Inl (rethrow (newPluginLifecycleError n ''onUnload'') e),
                        setState a ERROR s))
               w0)"

text \<open>
  The loop of \<^verbatim>\<open>unloadAllPlugins\<close> over the reversed snapshot of the registry:
  an error of \<^verbatim>\<open>unloadPlugin\<close> is caught and logged, and the loop goes on.
\<close>

fun unloadEach :: "nat list \<Rightarrow> world \<Rightarrow> world" where
  "unloadEach [] w = w"
| "unloadEach (a # as) w =
     (case unloadPlugin (PluginMetadata.name (metadata (heap w a))) w of
        (Inl e, w') \<Rightarrow> unloadEach as w'
      | (Inr u, w') \<Rightarrow> unloadEach as w')"

definition unloadAllPlugins :: "unit io" where
  "unloadAllPlugins w = (Inr (), unloadEach (rev (getAll w)) w)"

definition getPluginStatus :: "string \<Rightarrow> world \<Rightarrow> (PluginState \<times> PluginMetadata) option" where
  "getPluginStatus n w =
     (case get n w of
        None \<Rightarrow> None
      | Some a \<Rightarrow> Some (state (heap w a), metadata (heap w a)))"

section \<open>Plugin loader\<close>

subsection \<open>The descriptor, as parsed JSON\<close>

datatype json =
    JNull | JBool bool | JNum int | JStr string
  | JArr "json list" | JObj "(string \<times> json) list"

text \<open>JavaScript's truthiness and \<^verbatim>\<open>typeof\<close> on a parsed JSON value.\<close>

fun truthy :: "json \<Rightarrow> bool" where
  "truthy JNull = False"
| "truthy (JBool b) = b"
| "truthy (JNum i) = (i \<noteq> 0)"
| "truthy (JStr s) = (s \<noteq> [])"
| "truthy (JArr xs) = True"
| "truthy (JObj kvs) = True"

fun typeof :: "json \<Rightarrow> string" where
  "typeof JNull = ''object''"
| "typeof (JBool b) = ''boolean''"
| "typeof (JNum i) = ''number''"
| "typeof (JStr s) = ''string''"
| "typeof (JArr xs) = ''object''"
| "typeof (JObj kvs) = ''object''"

text \<open>
  Reading a property of a parsed value: \<open>None\<close> is \<^verbatim>\<open>undefined\<close>. When a key
  is repeated in the text, \<^verbatim>\<open>JSON.parse\<close> keeps the last one. An array has none
  of the properties the loader reads.
\<close>

fun getProp :: "json \<Rightarrow> string \<Rightarrow> json option" where
  "getProp (JObj kvs) k = map_of (rev kvs) k"
| "getProp j k = None"

fun stringOrUndefined :: "json option \<Rightarrow> string option" where
  "stringOrUndefined (Some (JStr s)) = Some s"
| "stringOrUndefined j = None"

definition validateMetadata :: "json \<Rightarrow> string \<Rightarrow> error + PluginMetadata" where
  "validateMetadata meta pluginDir =
     (if \<not> truthy meta \<or> typeof meta \<noteq> ''object''
      then Inl (PluginLoadError pluginDir ''Invalid plugin.json: not an object'')
      else if stringOrUndefined (getProp meta ''name'') = None
            \<or> stringOrUndefined (getProp meta ''name'') = Some []
      then Inl (PluginLoadError pluginDir ''Invalid plugin.json: missing or invalid name'')
      else if stringOrUndefined (getProp meta ''version'') = None
            \<or> stringOrUndefined (getProp meta ''version'') = Some []
      then Inl (PluginLoadError pluginDir ''Invalid plugin.json: missing or invalid version'')
      else Inr \<lparr>PluginMetadata.name = the (stringOrUndefined (getProp meta ''name'')),
                 version = the (stringOrUndefined (getProp meta ''version'')),
                 description = stringOrUndefined (getProp meta ''description''),
                 enabled = (getProp meta ''enabled'' \<noteq> Some (JBool False)),
                 author = stringOrUndefined (getProp meta ''author'')\<rparr>)"

subsection \<open>The file system, the path functions and the module loader\<close>

text \<open>
  The loader reaches the outside through \<^verbatim>\<open>fs.existsSync\<close>,
  \<^verbatim>\<open>fs.readdirSync\<close>, \<^verbatim>\<open>fs.readFileSync\<close> followed by
  \<^verbatim>\<open>JSON.parse\<close>, \<^verbatim>\<open>path.join\<close>, \<^verbatim>\<open>path.basename\<close> and the
  dynamic \<^verbatim>\<open>import\<close>. None of them is code of the repository; they are
  parameters. \<open>readdirSync\<close> gives the entries of a directory with their
  \<^verbatim>\<open>isDirectory()\<close> flag, or the error it throws (the path is not a directory, or
  may not be read); \<open>readJson\<close> is the parsed content of a file, or what reading or
  parsing throws; \<open>importModule\<close> is the default export of a module, or what importing
  throws, where \<open>None\<close> stands for a default export that is missing or not an object.
\<close>

record platform =
  existsSync :: "string \<Rightarrow> bool"
  readdirSync :: "string \<Rightarrow> error + (string \<times> bool) list"
  readJson :: "string \<Rightarrow> error + json"
  importModule :: "string \<Rightarrow> error + Plugin option"
  path_join :: "string \<Rightarrow> string \<Rightarrow> string"
  path_basename :: "string \<Rightarrow> string"

definition PLUGIN_CONFIG_FILE :: string where
  "PLUGIN_CONFIG_FILE = ''plugin.json''"

text \<open>
  The result is \<open>Inr None\<close> where the source returns \<^verbatim>\<open>null\<close> (no descriptor,
  or a disabled plugin), \<open>Inl\<close> where it throws.
\<close>

definition loadPluginFromDirectory ::
  "platform \<Rightarrow> string \<Rightarrow> error + (Plugin \<times> PluginMetadata) option" where
  "loadPluginFromDirectory fs pluginDir =
     (let configPath = path_join fs pluginDir PLUGIN_CONFIG_FILE;
          indexPath = path_join fs pluginDir ''index.ts'';
          indexJsPath = path_join fs pluginDir ''index.js''
      in if \<not> existsSync fs configPath then Inr None
         else case readJson fs configPath of
           Inl e \<Rightarrow> Inl e
         | Inr rawMetadata \<Rightarrow>
            (case validateMetadata rawMetadata pluginDir of
               Inl e \<Rightarrow> Inl e
             | Inr md \<Rightarrow>
                 if \<not> enabled md then Inr None
                 else if \<not> existsSync fs indexPath \<and> \<not> existsSync fs indexJsPath
                 then Inl (PluginLoadError (PluginMetadata.name md)
                             ''No index.ts or index.js found'')
                 else
                   (case importModule fs (if existsSync fs indexPath then indexPath
                                          else indexJsPath) of
                      Inl e \<Rightarrow> Inl e
                    | Inr None \<Rightarrow>
                        Inl (PluginLoadError (PluginMetadata.name md)
                               ''Plugin does not export a default object'')
                    | Inr (Some pl) \<Rightarrow>
                        if Plugin.name pl \<noteq> PluginMetadata.name md
                        then Inl (PluginLoadError (PluginMetadata.name md)
                                    (''Plugin name mismatch: '' @ Plugin.name pl @ '' vs ''
                                       @ PluginMetadata.name md))
                        else Inr (Some (pl, md)))))"

subsection \<open>PluginLoader\<close>

record PluginLoader =
  pluginsDir :: string
  autoEnable :: bool

definition lift :: "error + 'a \<Rightarrow> 'a io" where
  "lift r w = (r, w)"

text \<open>
  The body of the \<^verbatim>\<open>try\<close> in the loop of \<^verbatim>\<open>loadAllPlugins\<close>:
  \<open>None\<close> is \<^verbatim>\<open>continue\<close>, \<open>Some n\<close> the name pushed as a success.
\<close>

definition loadOne :: "PluginLoader \<Rightarrow> platform \<Rightarrow> string \<Rightarrow> string option io" where
  "loadOne L fs pluginDir =
     andThen (lift (loadPluginFromDirectory fs pluginDir)) (\<lambda>loaded.
       case loaded of
         None \<Rightarrow> ret None
       | Some (pl, md) \<Rightarrow>
           andThen (loadPlugin pl md pluginDir) (\<lambda>_.
           andThen (if autoEnable L then enablePlugin (PluginMetadata.name md) else ret ())
             (\<lambda>_. ret (Some (PluginMetadata.name md)))))"

text \<open>The entry pushed by the \<^verbatim>\<open>catch\<close> of the loop.\<close>

definition failureEntry :: "platform \<Rightarrow> string \<Rightarrow> error \<Rightarrow> PluginLoadResult" where
  "failureEntry fs pluginDir e =
     \<lparr>success = False, pluginName = path_basename fs pluginDir, error = Some (asError e)\<rparr>"

fun loadEach ::
  "PluginLoader \<Rightarrow> platform \<Rightarrow> string list \<Rightarrow> PluginLoadResult list \<Rightarrow>
     world \<Rightarrow> PluginLoadResult list \<times> world" where
  "loadEach L fs [] results w = (results, w)"
| "loadEach L fs (pluginDir # ds) results w =
     (case loadOne L fs pluginDir w of
        (Inr None, w') \<Rightarrow> loadEach L fs ds results w'
      | (Inr (Some n), w') \<Rightarrow>
          loadEach L fs ds
            (results @ [\<lparr>success = True, pluginName = n, error = None\<rparr>]) w'
      | (Inl e, w') \<Rightarrow> loadEach L fs ds (results @ [failureEntry fs pluginDir e]) w')"

text \<open>
  \<^verbatim>\<open>entries.filter((entry) => entry.isDirectory()).map((entry) =>
  path.join(this.pluginsDir, entry.name))\<close>
\<close>

definition pluginDirs :: "PluginLoader \<Rightarrow> platform \<Rightarrow> (string \<times> bool) list \<Rightarrow> string list" where
  "pluginDirs L fs entries =
     map (\<lambda>entry. path_join fs (pluginsDir L) (fst entry)) (filter snd entries)"

text \<open>
  \<^verbatim>\<open>fs.readdirSync\<close> is called before the loop and outside its
  \<^verbatim>\<open>try\<close>: what it throws leaves \<^verbatim>\<open>loadAllPlugins\<close>.
\<close>

definition loadAllPlugins :: "PluginLoader \<Rightarrow> platform \<Rightarrow> PluginLoadResult list io" where
  "loadAllPlugins L fs w =
     (if \<not> existsSync fs (pluginsDir L) then (Inr [], w)
      else case readdirSync fs (pluginsDir L) of
        Inl e \<Rightarrow> (Inl e, w)
      | Inr entries \<Rightarrow>
          (case loadEach L fs (pluginDirs L fs entries) [] w of
             (results, w') \<Rightarrow> (Inr results, w')))"

definition reloadPlugin :: "PluginLoader \<Rightarrow> platform \<Rightarrow> string \<Rightarrow> unit io" where
  "reloadPlugin L fs n w =
     (case get n w of
        None \<Rightarrow> (Inl (PluginLoadError n ''Plugin not found''), w)
      | Some a \<Rightarrow>
          andThen (unloadPlugin n) (\<lambda>_.
          andThen (lift (loadPluginFromDirectory fs (path (heap w a)))) (\<lambda>loaded.
            case loaded of
              None \<Rightarrow> throw (PluginLoadError n ''Failed to reload plugin'')
            | Some (pl, md) \<Rightarrow>
                andThen (loadPlugin pl md (path (heap w a))) (\<lambda>_.
                enablePlugin n))) w)"

section \<open>Observations on a run\<close>

text \<open>The hook invocations and the emitted events of a trace, in order.\<close>

fun hooksOf :: "action list \<Rightarrow> (nat \<times> hook_name) list" where
  "hooksOf [] = []"
| "hooksOf (HookCall a h # t) = (a, h) # hooksOf t"
| "hooksOf (x # t) = hooksOf t"

fun emitsOf :: "action list \<Rightarrow> (event_name \<times> payload) list" where
  "emitsOf [] = []"
| "emitsOf (Emit ev p # t) = (ev, p) # emitsOf t"
| "emitsOf (x # t) = emitsOf t"

text \<open>
  What a hook would do if the lifecycle manager reached it after the history \<open>t\<close>:
  \<open>None\<close> when it is absent or resolves, \<open>Some e\<close> when it rejects with \<open>e\<close>.
\<close>

definition outcome :: "behaviour option \<Rightarrow> action list \<Rightarrow> error option" where
  "outcome hk t = (case hk of None \<Rightarrow> None | Some f \<Rightarrow> f t)"

text \<open>A listener that returns normally whatever the history.\<close>

definition quiet :: "listener \<Rightarrow> bool" where
  "quiet l = (\<forall>t. run l t = None)"

text \<open>A listener that throws whatever the history.\<close>

definition loud :: "listener \<Rightarrow> bool" where
  "loud l = (\<forall>t. run l t \<noteq> None)"

section \<open>Example inputs\<close>

definition blank :: PluginInstance where
  "blank = \<lparr>plugin = \<lparr>Plugin.name = [], version = [], onLoad = None, onEnable = None,
                        onDisable = None, onUnload = None\<rparr>,
            metadata = \<lparr>PluginMetadata.name = [], version = [], description = None,
                          enabled = True, author = None\<rparr>,
            state = UNLOADED, path = []\<rparr>"

definition emptyWorld :: world where
  "emptyWorld = \<lparr>heap = (\<lambda>a. blank), nextAddr = 0, plugins = [], listeners = [],
                  trace = [], calls = []\<rparr>"

definition metaOf :: "string \<Rightarrow> string \<Rightarrow> PluginMetadata" where
  "metaOf n v = \<lparr>PluginMetadata.name = n, version = v, description = None,
                  enabled = True, author = None\<rparr>"

text \<open>A plugin without hooks, and plugins with exactly one hook, which rejects.\<close>

definition plain :: "string \<Rightarrow> string \<Rightarrow> Plugin" where
  "plain n v = \<lparr>Plugin.name = n, version = v, onLoad = None, onEnable = None,
                 onDisable = None, onUnload = None\<rparr>"

definition failing :: behaviour where
  "failing = (\<lambda>t. Some (Error ''boom''))"

definition succeeding :: behaviour where
  "succeeding = (\<lambda>t. None)"

definition boomListener :: listener where
  "boomListener = \<lparr>lid = 0, once = False, run = failing\<rparr>"

definition calmListener :: listener where
  "calmListener = \<lparr>lid = 1, once = False, run = succeeding\<rparr>"

definition flaky :: Plugin where
  "flaky = (plain ''p'' ''1.0.0'')\<lparr>onDisable := Some failing\<rparr>"

definition brokenLoad :: Plugin where
  "brokenLoad = (plain ''p'' ''1.0.0'')\<lparr>onLoad := Some failing\<rparr>"

text \<open>
  The state after loading and enabling \<open>flaky\<close> and then trying to disable it: its
  \<^verbatim>\<open>onDisable\<close> rejects, which leaves the instance registered in state
  \<open>ERROR\<close>.
\<close>

definition afterFailedDisable :: world where
  "afterFailedDisable =
     snd (disablePlugin ''p''
       (snd (enablePlugin ''p''
         (snd (loadPlugin flaky (metaOf ''p'' ''1.0.0'') ''plugins/p'' emptyWorld)))))"

text \<open>A bus on which a listener that throws is subscribed to \<^verbatim>\<open>plugin:loaded\<close>.\<close>

definition noisyWorld :: world where
  "noisyWorld = emptyWorld\<lparr>listeners := [(PluginLoaded, boomListener)]\<rparr>"

text \<open>The state after loading and enabling \<open>flaky\<close>.\<close>

definition enabledFlaky :: world where
  "enabledFlaky =
     snd (enablePlugin ''p''
       (snd (loadPlugin flaky (metaOf ''p'' ''1.0.0'') ''plugins/p'' emptyWorld)))"

definition withEnable :: Plugin where
  "withEnable = (plain ''p'' ''1.0.0'')\<lparr>onEnable := Some succeeding\<rparr>"

text \<open>The state after loading \<open>withEnable\<close>.\<close>

definition loadedWorld :: world where
  "loadedWorld = snd (loadPlugin withEnable (metaOf ''p'' ''1.0.0'') ''plugins/p'' emptyWorld)"

definition loader :: PluginLoader where
  "loader = \<lparr>pluginsDir = ''plugins'', autoEnable = True\<rparr>"

definition descriptor :: "string \<Rightarrow> string \<Rightarrow> json" where
  "descriptor n v = JObj [(''name'', JStr n), (''version'', JStr v)]"

text \<open>
  The paths of the examples have no empty, \<^verbatim>\<open>.\<close> or \<^verbatim>\<open>..\<close> segment and no
  trailing slash; on such paths \<^verbatim>\<open>path.join\<close> puts a slash between its arguments
  and \<^verbatim>\<open>path.basename\<close> is what follows the last slash.
\<close>

definition joinSlash :: "string \<Rightarrow> string \<Rightarrow> string" where
  "joinSlash dir entry = dir @ ''/'' @ entry"

definition afterLastSlash :: "string \<Rightarrow> string" where
  "afterLastSlash p = rev (takeWhile (\<lambda>c. c \<noteq> CHR ''/'') (rev p))"

text \<open>
  A plugins root with the single plugin directory \<open>p\<close>, holding the descriptor
  \<open>desc\<close> and an \<^verbatim>\<open>index.ts\<close> whose default export is \<open>pl\<close>.
\<close>

definition singleFs :: "json \<Rightarrow> Plugin \<Rightarrow> platform" where
  "singleFs desc pl =
     \<lparr>existsSync = (\<lambda>p. p \<in> set [''plugins'', ''plugins/p'', ''plugins/p/plugin.json'',
                                     ''plugins/p/index.ts'']),
      readdirSync = (\<lambda>p. Inr [(''p'', True)]),
      readJson = (\<lambda>p. Inr desc),
      importModule = (\<lambda>p. Inr (Some pl)),
      path_join = joinSlash, path_basename = afterLastSlash\<rparr>"

text \<open>
  A plugins root with a file and two plugin directories: \<open>bad\<close>, whose descriptor
  has no name, and \<open>good\<close>, a valid plugin compiled to \<^verbatim>\<open>index.js\<close>.
\<close>

definition twoDirFs :: platform where
  "twoDirFs =
     \<lparr>existsSync = (\<lambda>p. p \<in> set [''plugins'', ''plugins/bad'', ''plugins/bad/plugin.json'',
                                     ''plugins/good'', ''plugins/good/plugin.json'',
                                     ''plugins/good/index.js'']),
      readdirSync = (\<lambda>p. Inr [(''bad'', True), (''README.md'', False), (''good'', True)]),
      readJson = (\<lambda>p. if p = ''plugins/good/plugin.json''
                         then Inr (descriptor ''good'' ''1.0.0'')
                         else Inr (JObj [(''version'', JStr ''1.0.0'')])),
      importModule = (\<lambda>p. Inr (Some (plain ''good'' ''1.0.0''))),
      path_join = joinSlash, path_basename = afterLastSlash\<rparr>"

text \<open>A file system without the plugins root.\<close>

definition noRootFs :: platform where
  "noRootFs = \<lparr>existsSync = (\<lambda>p. False),
                readdirSync = (\<lambda>p. Inl (Error ''ENOENT: no such file or directory'')),
                readJson = (\<lambda>p. Inl (Error ''ENOENT: no such file or directory'')),
                importModule = (\<lambda>p. Inl (Error ''Cannot find module'')),
                path_join = joinSlash, path_basename = afterLastSlash\<rparr>"

text \<open>A file system in which the plugins root is a regular file.\<close>

definition fileRootFs :: platform where
  "fileRootFs = \<lparr>existsSync = (\<lambda>p. p = ''plugins''),
                  readdirSync = (\<lambda>p. Inl (Error ''ENOTDIR: not a directory'')),
                  readJson = (\<lambda>p. Inl (Error ''ENOTDIR: not a directory'')),
                  importModule = (\<lambda>p. Inl (Error ''Cannot find module'')),
                  path_join = joinSlash, path_basename = afterLastSlash\<rparr>"

text \<open>The state after loading and enabling a plugin without hooks.\<close>

definition enabledWorld :: world where
  "enabledWorld =
     snd (enablePlugin ''p''
       (snd (loadPlugin (plain ''p'' ''1.0.0'') (metaOf ''p'' ''1.0.0'') ''plugins/p''
               emptyWorld)))"

text \<open>A valid descriptor that switches the plugin off.\<close>

definition disabledDescriptor :: json where
  "disabledDescriptor =
     JObj [(''name'', JStr ''p''), (''version'', JStr ''1.0.0''), (''enabled'', JBool False)]"

text \<open>
  Three plugins loaded in the order \<open>a\<close>, \<open>b\<close>, \<open>c\<close>; the
  \<^verbatim>\<open>onUnload\<close> hook of \<open>b\<close> rejects.
\<close>

definition stubborn :: Plugin where
  "stubborn = (plain ''b'' ''1.0.0'')\<lparr>onUnload := Some failing\<rparr>"

definition threeLoaded :: world where
  "threeLoaded =
     snd (loadPlugin (plain ''c'' ''1.0.0'') (metaOf ''c'' ''1.0.0'') ''plugins/c''
       (snd (loadPlugin stubborn (metaOf ''b'' ''1.0.0'') ''plugins/b''
         (snd (loadPlugin (plain ''a'' ''1.0.0'') (metaOf ''a'' ''1.0.0'') ''plugins/a''
           emptyWorld)))))"

definition brokenEnable :: Plugin where
  "brokenEnable = (plain ''p'' ''1.0.0'')\<lparr>onEnable := Some failing\<rparr>"

text \<open>The state after loading \<open>brokenEnable\<close>, whose \<^verbatim>\<open>onEnable\<close> rejects.\<close>

definition loadedBroken :: world where
  "loadedBroken =
     snd (loadPlugin brokenEnable (metaOf ''p'' ''1.0.0'') ''plugins/p'' emptyWorld)"

text \<open>A plugin whose \<^verbatim>\<open>onLoad\<close> rejects with \<^verbatim>\<open>undefined\<close>.\<close>

definition nullishLoad :: Plugin where
  "nullishLoad = (plain ''p'' ''1.0.0'')\<lparr>onLoad := Some (\<lambda>t. Some Undefined)\<rparr>"

text \<open>
  An enabled plugin without hooks, and a listener that throws subscribed to
  \<^verbatim>\<open>plugin:loaded\<close> afterwards.
\<close>

definition noisyEnabledWorld :: world where
  "noisyEnabledWorld = enabledWorld\<lparr>listeners := [(PluginLoaded, boomListener)]\<rparr>"

section \<open>Basic facts\<close>

lemmas example_defs =
  flaky_def brokenLoad_def plain_def metaOf_def failing_def succeeding_def emptyWorld_def
  blank_def boomListener_def calmListener_def noisyWorld_def enabledFlaky_def
  withEnable_def loadedWorld_def enabledWorld_def disabledDescriptor_def stubborn_def
  threeLoaded_def brokenEnable_def loadedBroken_def nullishLoad_def
  noisyEnabledWorld_def

lemmas fs_defs =
  loader_def descriptor_def singleFs_def twoDirFs_def noRootFs_def fileRootFs_def
  joinSlash_def afterLastSlash_def

lemmas loader_defs =
  loadAllPlugins_def pluginDirs_def loadOne_def loadPluginFromDirectory_def
  validateMetadata_def PLUGIN_CONFIG_FILE_def reloadPlugin_def failureEntry_def

lemmas model_defs =
  loadPlugin_def enablePlugin_def disablePlugin_def unloadPlugin_def
  tryCatch_def andThen_def ret_def throw_def lift_def runHook_def setState_def
  register_def unregister_def emitEvent_def listenersOf_def get_def Let_def
  rethrow_def newPluginLoadError_def newPluginLifecycleError_def

lemma hooksOf_append [simp]: "hooksOf (t @ u) = hooksOf t @ hooksOf u"
  by (induction t rule: hooksOf.induct) simp_all

lemma emitsOf_append [simp]: "emitsOf (t @ u) = emitsOf t @ emitsOf u"
  by (induction t rule: emitsOf.induct) simp_all

lemma invoke_frame [simp]:
  "heap (snd (invoke ev p ls w)) = heap w"
  "plugins (snd (invoke ev p ls w)) = plugins w"
  "nextAddr (snd (invoke ev p ls w)) = nextAddr w"
  "calls (snd (invoke ev p ls w)) = calls w"
  "hooksOf (trace (snd (invoke ev p ls w))) = hooksOf (trace w)"
  "emitsOf (trace (snd (invoke ev p ls w))) = emitsOf (trace w)"
  by (induction ls arbitrary: w; simp add: Let_def split: option.splits)+

lemma emitEvent_frame [simp]:
  "heap (snd (emitEvent ev p w)) = heap w"
  "plugins (snd (emitEvent ev p w)) = plugins w"
  "nextAddr (snd (emitEvent ev p w)) = nextAddr w"
  "calls (snd (emitEvent ev p w)) = calls w"
  "hooksOf (trace (snd (emitEvent ev p w))) = hooksOf (trace w)"
  "emitsOf (trace (snd (emitEvent ev p w))) = emitsOf (trace w) @ [(ev, p)]"
  by (simp_all add: emitEvent_def andThen_def ret_def Let_def case_prod_beta split: sum.splits)

lemma runHook_frame [simp]:
  "heap (snd (runHook a h hk w)) = heap w"
  "plugins (snd (runHook a h hk w)) = plugins w"
  "nextAddr (snd (runHook a h hk w)) = nextAddr w"
  "calls (snd (runHook a h hk w)) = calls w"
  "listeners (snd (runHook a h hk w)) = listeners w"
  "emitsOf (trace (snd (runHook a h hk w))) = emitsOf (trace w)"
  "hooksOf (trace (snd (runHook a h hk w))) =
     hooksOf (trace w) @ (case hk of None \<Rightarrow> [] | Some f \<Rightarrow> [(a, h)])"
  by (simp_all add: runHook_def Let_def split: option.splits)

lemma setState_frame [simp]:
  "plugins (setState a st w) = plugins w"
  "nextAddr (setState a st w) = nextAddr w"
  "calls (setState a st w) = calls w"
  "listeners (setState a st w) = listeners w"
  "trace (setState a st w) = trace w"
  "plugin (heap (setState a st w) b) = plugin (heap w b)"
  "metadata (heap (setState a st w) b) = metadata (heap w b)"
  "path (heap (setState a st w) b) = path (heap w b)"
  "state (heap (setState a st w) b) = (if b = a then st else state (heap w b))"
  by (simp_all add: setState_def)

lemma enablePlugin_frame [simp]:
  "plugins (snd (enablePlugin n w)) = plugins w"
  "nextAddr (snd (enablePlugin n w)) = nextAddr w"
  "calls (snd (enablePlugin n w)) = calls w"
  "plugin (heap (snd (enablePlugin n w)) b) = plugin (heap w b)"
  "metadata (heap (snd (enablePlugin n w)) b) = metadata (heap w b)"
  "path (heap (snd (enablePlugin n w)) b) = path (heap w b)"
  by (simp_all add: enablePlugin_def tryCatch_def andThen_def ret_def case_prod_beta
        split: option.splits sum.splits)

lemma disablePlugin_frame [simp]:
  "plugins (snd (disablePlugin n w)) = plugins w"
  "nextAddr (snd (disablePlugin n w)) = nextAddr w"
  "calls (snd (disablePlugin n w)) = calls w"
  "plugin (heap (snd (disablePlugin n w)) b) = plugin (heap w b)"
  "metadata (heap (snd (disablePlugin n w)) b) = metadata (heap w b)"
  "path (heap (snd (disablePlugin n w)) b) = path (heap w b)"
  by (simp_all add: disablePlugin_def tryCatch_def andThen_def ret_def case_prod_beta
        split: option.splits sum.splits)

lemma unregister_frame [simp]:
  "heap (unregister n w) = heap w"
  "nextAddr (unregister n w) = nextAddr w"
  "calls (unregister n w) = calls w"
  "listeners (unregister n w) = listeners w"
  "trace (unregister n w) = trace w"
  "plugins (unregister n w) = AList.delete n (plugins w)"
  by (simp_all add: unregister_def)

lemma register_frame [simp]:
  "heap (register a w) = heap w"
  "nextAddr (register a w) = nextAddr w"
  "calls (register a w) = calls w"
  "listeners (register a w) = listeners w"
  "trace (register a w) = trace w"
  "plugins (register a w) = AList.update (PluginMetadata.name (metadata (heap w a))) a (plugins w)"
  by (simp_all add: register_def)

lemma unloadPlugin_frame [simp]:
  "nextAddr (snd (unloadPlugin n w)) = nextAddr w"
  "calls (snd (unloadPlugin n w)) = calls w @ [n]"
  "plugin (heap (snd (unloadPlugin n w)) b) = plugin (heap w b)"
  "metadata (heap (snd (unloadPlugin n w)) b) = metadata (heap w b)"
  "path (heap (snd (unloadPlugin n w)) b) = path (heap w b)"
  by (simp_all add: unloadPlugin_def tryCatch_def andThen_def ret_def case_prod_beta Let_def get_def
        split: option.splits sum.splits)

lemma runHook_result:
  "fst (runHook a h hk w) =
     (case outcome hk (trace w) of None \<Rightarrow> Inr () | Some e \<Rightarrow> Inl e)"
  by (simp add: runHook_def outcome_def Let_def split: option.splits)

lemma get_frame [simp]:
  "get n (snd (emitEvent ev p w)) = get n w"
  "get n (snd (runHook a h hk w)) = get n w"
  "get n (setState a st w) = get n w"
  "get n (snd (enablePlugin m w)) = get n w"
  "get n (snd (disablePlugin m w)) = get n w"
  by (simp_all add: get_def)

lemma invoke_quiet:
  "\<forall>l\<in>set ls. quiet l \<Longrightarrow> fst (invoke ev p ls w) = Inr ()"
  by (induction ls arbitrary: w) (simp_all add: quiet_def Let_def)

lemma listenersOf_trace [simp]:
  "listenersOf ev (w\<lparr>trace := t\<rparr>) = listenersOf ev w"
  by (simp add: listenersOf_def)

lemma emitEvent_quiet:
  "\<forall>l\<in>set (listenersOf ev w). quiet l \<Longrightarrow>
     fst (emitEvent ev p w) = Inr (listenersOf ev w \<noteq> [])"
  using invoke_quiet [of "listenersOf ev w" ev p "w\<lparr>trace := trace w @ [Emit ev p]\<rparr>"]
  by (simp add: emitEvent_def andThen_def ret_def Let_def case_prod_beta split: sum.splits)

lemma listenersOf_frame [simp]:
  "listenersOf ev (snd (runHook a h hk w)) = listenersOf ev w"
  "listenersOf ev (setState a st w) = listenersOf ev w"
  "listenersOf ev (register a w) = listenersOf ev w"
  "listenersOf ev (unregister n w) = listenersOf ev w"
  "listenersOf ev (w\<lparr>heap := hp, nextAddr := k\<rparr>) = listenersOf ev w"
  by (simp_all add: listenersOf_def)

lemma invoke_loud:
  "\<exists>l\<in>set ls. loud l \<Longrightarrow> isl (fst (invoke ev p ls w))"
proof (induction ls arbitrary: w)
  case Nil
  then show ?case by simp
next
  case (Cons l ls)
  show ?case
  proof (cases "run l (trace w)")
    case (Some msg)
    then show ?thesis by (simp add: Let_def)
  next
    case None
    then have "\<not> loud l" by (auto simp add: loud_def)
    with Cons.prems have "\<exists>l\<in>set ls. loud l" by auto
    then show ?thesis using None Cons.IH by (simp add: Let_def)
  qed
qed

lemma emitEvent_loud:
  "\<exists>l\<in>set (listenersOf ev w). loud l \<Longrightarrow> isl (fst (emitEvent ev p w))"
  using invoke_loud [of "listenersOf ev w" ev p "w\<lparr>trace := trace w @ [Emit ev p]\<rparr>"]
  by (auto simp add: emitEvent_def andThen_def Let_def case_prod_beta split: sum.splits)

lemma disablePlugin_rejected:
  assumes "get n w = Some a" and "state (heap w a) = ENABLED"
    and "outcome (onDisable (plugin (heap w a))) (trace w) = Some e"
  shows "fst (disablePlugin n w) = Inl (rethrow (newPluginLifecycleError n ''onDisable'') e)"
    and "state (heap (snd (disablePlugin n w)) b) = (if b = a then ERROR else state (heap w b))"
    and "hooksOf (trace (snd (disablePlugin n w))) = hooksOf (trace w) @ [(a, OnDisable)]"
    and "emitsOf (trace (snd (disablePlugin n w))) = emitsOf (trace w)"
  using assms
  by (simp_all add: disablePlugin_def tryCatch_def andThen_def case_prod_beta runHook_result
      outcome_def split: option.splits)

lemma rethrow_lifecycle_message:
  "\<exists>msg. messageOf (rethrow (newPluginLifecycleError n h) e) = Inr (Some msg)"
  by (cases e) (simp_all add: rethrow_def newPluginLifecycleError_def)

lemma unloadEach_calls:
  "calls (unloadEach as w) =
     calls w @ map (\<lambda>a. PluginMetadata.name (metadata (heap w a))) as"
proof (induction as arbitrary: w)
  case Nil
  show ?case by simp
next
  case (Cons a as)
  have "unloadEach (a # as) w =
          unloadEach as (snd (unloadPlugin (PluginMetadata.name (metadata (heap w a))) w))"
    by (simp split: prod.splits sum.splits)
  then show ?case
    by (simp add: Cons.IH)
qed

lemma enablePlugin_run:
  assumes "get n w = Some a" and "state (heap w a) \<noteq> ENABLED"
  shows "hooksOf (trace (snd (enablePlugin n w))) =
           hooksOf (trace w) @
             (case onEnable (plugin (heap w a)) of None \<Rightarrow> [] | Some f \<Rightarrow> [(a, OnEnable)])"
    and "state (heap (snd (enablePlugin n w)) a) =
           (if isl (fst (enablePlugin n w)) then ERROR else ENABLED)"
    and "outcome (onEnable (plugin (heap w a))) (trace w) = Some e \<Longrightarrow>
           fst (enablePlugin n w) = Inl (rethrow (newPluginLifecycleError n ''onEnable'') e)
         \<and> emitsOf (trace (snd (enablePlugin n w))) = emitsOf (trace w)"
    and "outcome (onEnable (plugin (heap w a))) (trace w) = None \<Longrightarrow>
           emitsOf (trace (snd (enablePlugin n w))) =
             emitsOf (trace w) @ [(PluginEnabled, [(''name'', n)])]"
    and "outcome (onEnable (plugin (heap w a))) (trace w) = None \<Longrightarrow>
           \<forall>l\<in>set (listenersOf PluginEnabled w). quiet l \<Longrightarrow>
           fst (enablePlugin n w) = Inr ()"
    and "outcome (onEnable (plugin (heap w a))) (trace w) = None \<Longrightarrow>
           \<exists>l\<in>set (listenersOf PluginEnabled w). loud l \<Longrightarrow>
           isl (fst (enablePlugin n w))"
proof -
  show "hooksOf (trace (snd (enablePlugin n w))) =
           hooksOf (trace w) @
             (case onEnable (plugin (heap w a)) of None \<Rightarrow> [] | Some f \<Rightarrow> [(a, OnEnable)])"
    using assms
    by (simp add: enablePlugin_def tryCatch_def andThen_def ret_def case_prod_beta
          split: sum.splits)
  show "state (heap (snd (enablePlugin n w)) a) =
           (if isl (fst (enablePlugin n w)) then ERROR else ENABLED)"
    using assms
    by (simp add: enablePlugin_def tryCatch_def andThen_def ret_def case_prod_beta
          split: sum.splits)
  show "fst (enablePlugin n w) = Inl (rethrow (newPluginLifecycleError n ''onEnable'') e)
         \<and> emitsOf (trace (snd (enablePlugin n w))) = emitsOf (trace w)"
    if "outcome (onEnable (plugin (heap w a))) (trace w) = Some e"
    using assms that
    by (simp add: enablePlugin_def tryCatch_def andThen_def case_prod_beta runHook_result)
  assume ok: "outcome (onEnable (plugin (heap w a))) (trace w) = None"
  let ?w1 = "setState a ENABLED (snd (runHook a OnEnable (onEnable (plugin (heap w a))) w))"
  have ls: "listenersOf PluginEnabled ?w1 = listenersOf PluginEnabled w"
    by simp
  show "emitsOf (trace (snd (enablePlugin n w))) =
             emitsOf (trace w) @ [(PluginEnabled, [(''name'', n)])]"
    using assms ok
    by (simp add: enablePlugin_def tryCatch_def andThen_def ret_def case_prod_beta
          runHook_result split: sum.splits)
  show "fst (enablePlugin n w) = Inr ()"
    if "\<forall>l\<in>set (listenersOf PluginEnabled w). quiet l"
  proof -
    have "fst (emitEvent PluginEnabled [(''name'', n)] ?w1) =
            Inr (listenersOf PluginEnabled w \<noteq> [])"
      using that emitEvent_quiet [of PluginEnabled ?w1] ls by simp
    then show ?thesis
      using assms ok
      by (simp add: enablePlugin_def tryCatch_def andThen_def ret_def case_prod_beta
            runHook_result)
  qed
  show "isl (fst (enablePlugin n w))"
    if "\<exists>l\<in>set (listenersOf PluginEnabled w). loud l"
  proof -
    have "isl (fst (emitEvent PluginEnabled [(''name'', n)] ?w1))"
      using that emitEvent_loud [of PluginEnabled ?w1] ls by simp
    then show ?thesis
      using assms ok
      by (auto simp add: enablePlugin_def tryCatch_def andThen_def ret_def case_prod_beta
            runHook_result split: sum.splits)
  qed
qed

lemma disablePlugin_run:
  assumes "get n w = Some a" and "state (heap w a) \<noteq> DISABLED"
    and "state (heap w a) \<noteq> LOADED"
  shows "hooksOf (trace (snd (disablePlugin n w))) =
           hooksOf (trace w) @
             (case onDisable (plugin (heap w a)) of None \<Rightarrow> [] | Some f \<Rightarrow> [(a, OnDisable)])"
    and "state (heap (snd (disablePlugin n w)) a) =
           (if isl (fst (disablePlugin n w)) then ERROR else DISABLED)"
    and "outcome (onDisable (plugin (heap w a))) (trace w) = Some e \<Longrightarrow>
           fst (disablePlugin n w) = Inl (rethrow (newPluginLifecycleError n ''onDisable'') e)
         \<and> emitsOf (trace (snd (disablePlugin n w))) = emitsOf (trace w)"
    and "outcome (onDisable (plugin (heap w a))) (trace w) = None \<Longrightarrow>
           emitsOf (trace (snd (disablePlugin n w))) =
             emitsOf (trace w) @ [(PluginDisabled, [(''name'', n)])]"
    and "outcome (onDisable (plugin (heap w a))) (trace w) = None \<Longrightarrow>
           \<forall>l\<in>set (listenersOf PluginDisabled w). quiet l \<Longrightarrow>
           fst (disablePlugin n w) = Inr ()"
    and "outcome (onDisable (plugin (heap w a))) (trace w) = None \<Longrightarrow>
           \<exists>l\<in>set (listenersOf PluginDisabled w). loud l \<Longrightarrow>
           isl (fst (disablePlugin n w))"
proof -
  show "hooksOf (trace (snd (disablePlugin n w))) =
           hooksOf (trace w) @
             (case onDisable (plugin (heap w a)) of None \<Rightarrow> [] | Some f \<Rightarrow> [(a, OnDisable)])"
    using assms
    by (simp add: disablePlugin_def tryCatch_def andThen_def ret_def case_prod_beta
          split: sum.splits)
  show "state (heap (snd (disablePlugin n w)) a) =
           (if isl (fst (disablePlugin n w)) then ERROR else DISABLED)"
    using assms
    by (simp add: disablePlugin_def tryCatch_def andThen_def ret_def case_prod_beta
          split: sum.splits)
  show "fst (disablePlugin n w) = Inl (rethrow (newPluginLifecycleError n ''onDisable'') e)
         \<and> emitsOf (trace (snd (disablePlugin n w))) = emitsOf (trace w)"
    if "outcome (onDisable (plugin (heap w a))) (trace w) = Some e"
    using assms that
    by (simp add: disablePlugin_def tryCatch_def andThen_def case_prod_beta runHook_result)
  assume ok: "outcome (onDisable (plugin (heap w a))) (trace w) = None"
  let ?w1 = "setState a DISABLED (snd (runHook a OnDisable (onDisable (plugin (heap w a))) w))"
  have ls: "listenersOf PluginDisabled ?w1 = listenersOf PluginDisabled w"
    by simp
  show "emitsOf (trace (snd (disablePlugin n w))) =
             emitsOf (trace w) @ [(PluginDisabled, [(''name'', n)])]"
    using assms ok
    by (simp add: disablePlugin_def tryCatch_def andThen_def ret_def case_prod_beta
          runHook_result split: sum.splits)
  show "fst (disablePlugin n w) = Inr ()"
    if "\<forall>l\<in>set (listenersOf PluginDisabled w). quiet l"
  proof -
    have "fst (emitEvent PluginDisabled [(''name'', n)] ?w1) =
            Inr (listenersOf PluginDisabled w \<noteq> [])"
      using that emitEvent_quiet [of PluginDisabled ?w1] ls by simp
    then show ?thesis
      using assms ok
      by (simp add: disablePlugin_def tryCatch_def andThen_def ret_def case_prod_beta
            runHook_result)
  qed
  show "isl (fst (disablePlugin n w))"
    if "\<exists>l\<in>set (listenersOf PluginDisabled w). loud l"
  proof -
    have "isl (fst (emitEvent PluginDisabled [(''name'', n)] ?w1))"
      using that emitEvent_loud [of PluginDisabled ?w1] ls by simp
    then show ?thesis
      using assms ok
      by (auto simp add: disablePlugin_def tryCatch_def andThen_def ret_def case_prod_beta
            runHook_result split: sum.splits)
  qed
qed

lemma loadPlugin_rejected:
  assumes "outcome (onLoad pl) (trace w) = Some e"
  shows "fst (loadPlugin pl md pth w) =
           Inl (rethrow (newPluginLoadError (PluginMetadata.name md)) e)"
    and "plugins (snd (loadPlugin pl md pth w)) = plugins w"
    and "state (heap (snd (loadPlugin pl md pth w)) (nextAddr w)) = ERROR"
    and "emitsOf (trace (snd (loadPlugin pl md pth w))) = emitsOf (trace w)"
    and "nextAddr (snd (loadPlugin pl md pth w)) = Suc (nextAddr w)"
  using assms
  by (simp_all add: loadPlugin_def tryCatch_def andThen_def Let_def case_prod_beta
        runHook_result)

lemma loadPlugin_resolved:
  assumes "outcome (onLoad pl) (trace w) = None"
  shows "plugins (snd (loadPlugin pl md pth w)) =
           AList.update (PluginMetadata.name md) (nextAddr w) (plugins w)"
    and "plugin (heap (snd (loadPlugin pl md pth w)) (nextAddr w)) = pl"
    and "metadata (heap (snd (loadPlugin pl md pth w)) (nextAddr w)) = md"
    and "emitsOf (trace (snd (loadPlugin pl md pth w))) =
           emitsOf (trace w) @
             [(PluginLoaded, [(''name'', PluginMetadata.name md),
                              (''version'', PluginMetadata.version md)])]"
    and "state (heap (snd (loadPlugin pl md pth w)) (nextAddr w)) =
           (if isl (fst (loadPlugin pl md pth w)) then ERROR else LOADED)"
    and "\<forall>l\<in>set (listenersOf PluginLoaded w). quiet l \<Longrightarrow>
           fst (loadPlugin pl md pth w) = Inr (nextAddr w)"
    and "\<exists>l\<in>set (listenersOf PluginLoaded w). loud l \<Longrightarrow>
           isl (fst (loadPlugin pl md pth w))"
    and "nextAddr (snd (loadPlugin pl md pth w)) = Suc (nextAddr w)"
proof -
  let ?w0 = "w\<lparr>heap := (heap w)(nextAddr w := \<lparr>plugin = pl, metadata = md, state = UNLOADED,
               path = pth\<rparr>), nextAddr := Suc (nextAddr w)\<rparr>"
  let ?w1 = "register (nextAddr w)
               (setState (nextAddr w) LOADED (snd (runHook (nextAddr w) OnLoad (onLoad pl) ?w0)))"
  have r: "fst (runHook (nextAddr w) OnLoad (onLoad pl) ?w0) = Inr ()"
    using assms by (simp add: runHook_result)
  have ls: "listenersOf PluginLoaded ?w1 = listenersOf PluginLoaded w"
    by simp
  show "plugins (snd (loadPlugin pl md pth w)) =
           AList.update (PluginMetadata.name md) (nextAddr w) (plugins w)"
    using r by (simp add: loadPlugin_def tryCatch_def andThen_def ret_def Let_def
        case_prod_beta split: sum.splits)
  show "plugin (heap (snd (loadPlugin pl md pth w)) (nextAddr w)) = pl"
    using r by (simp add: loadPlugin_def tryCatch_def andThen_def ret_def Let_def
        case_prod_beta split: sum.splits)
  show "metadata (heap (snd (loadPlugin pl md pth w)) (nextAddr w)) = md"
    using r by (simp add: loadPlugin_def tryCatch_def andThen_def ret_def Let_def
        case_prod_beta split: sum.splits)
  show "emitsOf (trace (snd (loadPlugin pl md pth w))) =
           emitsOf (trace w) @
             [(PluginLoaded, [(''name'', PluginMetadata.name md),
                              (''version'', PluginMetadata.version md)])]"
    using r by (simp add: loadPlugin_def tryCatch_def andThen_def ret_def Let_def
        case_prod_beta split: sum.splits)
  show "state (heap (snd (loadPlugin pl md pth w)) (nextAddr w)) =
           (if isl (fst (loadPlugin pl md pth w)) then ERROR else LOADED)"
    using r by (simp add: loadPlugin_def tryCatch_def andThen_def ret_def Let_def
        case_prod_beta split: sum.splits)
  show "nextAddr (snd (loadPlugin pl md pth w)) = Suc (nextAddr w)"
    using r by (simp add: loadPlugin_def tryCatch_def andThen_def ret_def Let_def
        case_prod_beta split: sum.splits)
  show "fst (loadPlugin pl md pth w) = Inr (nextAddr w)"
    if "\<forall>l\<in>set (listenersOf PluginLoaded w). quiet l"
  proof -
    have "\<And>p. fst (emitEvent PluginLoaded p ?w1) = Inr (listenersOf PluginLoaded w \<noteq> [])"
      using that emitEvent_quiet [of PluginLoaded ?w1] ls by simp
    then show ?thesis
      using r by (simp add: loadPlugin_def tryCatch_def andThen_def ret_def Let_def
          case_prod_beta)
  qed
  show "isl (fst (loadPlugin pl md pth w))"
    if "\<exists>l\<in>set (listenersOf PluginLoaded w). loud l"
  proof -
    have "isl (fst (emitEvent PluginLoaded
                      [(''name'', PluginMetadata.name md),
                       (''version'', PluginMetadata.version md)] ?w1))"
      using that emitEvent_loud [of PluginLoaded ?w1] ls by simp
    then show ?thesis
      using r by (auto simp add: loadPlugin_def tryCatch_def andThen_def ret_def Let_def
          case_prod_beta split: sum.splits)
  qed
qed

lemma loadPluginFromDirectory_name_mismatch:
  assumes "existsSync fs (path_join fs d PLUGIN_CONFIG_FILE)"
    and "readJson fs (path_join fs d PLUGIN_CONFIG_FILE) = Inr j"
    and "validateMetadata j d = Inr md" and "enabled md"
    and "existsSync fs (path_join fs d ''index.ts'') \<or> existsSync fs (path_join fs d ''index.js'')"
    and "importModule fs (if existsSync fs (path_join fs d ''index.ts'')
                          then path_join fs d ''index.ts'' else path_join fs d ''index.js'')
           = Inr (Some pl)"
    and "Plugin.name pl \<noteq> PluginMetadata.name md"
  shows "loadPluginFromDirectory fs d =
           Inl (PluginLoadError (PluginMetadata.name md)
                  (''Plugin name mismatch: '' @ Plugin.name pl @ '' vs ''
                     @ PluginMetadata.name md))"
  using assms by (auto simp add: loadPluginFromDirectory_def Let_def)



lemma validateMetadata_valid:
  assumes "getProp (JObj kvs) ''name'' = Some (JStr n)" and "n \<noteq> []"
    and "getProp (JObj kvs) ''version'' = Some (JStr v)" and "v \<noteq> []"
  shows "validateMetadata (JObj kvs) d =
           Inr \<lparr>PluginMetadata.name = n, version = v,
                 description = stringOrUndefined (getProp (JObj kvs) ''description''),
                 enabled = (getProp (JObj kvs) ''enabled'' \<noteq> Some (JBool False)),
                 author = stringOrUndefined (getProp (JObj kvs) ''author'')\<rparr>"
  using assms by (simp add: validateMetadata_def)






section \<open>The claims\<close>

text \<open>
  C1 (as amended). The code has no guard on the state \<open>ERROR\<close>. For a registered
  instance in state \<open>ERROR\<close>, a single \<^verbatim>\<open>enablePlugin\<close> call runs the enable
  sequence again: the \<^verbatim>\<open>onEnable\<close> hook, when the plugin has one, is invoked,
  and when it resolves \<^verbatim>\<open>plugin:enabled\<close> is emitted. The call succeeds and
  leaves the instance \<open>ENABLED\<close> when the hook resolves (or is absent) and no listener
  of the event throws; it fails and leaves the instance in \<open>ERROR\<close> when the hook
  rejects or a listener throws; the state after the call is \<open>ERROR\<close> exactly when the
  call fails. The same holds of \<^verbatim>\<open>disablePlugin\<close>, with
  \<^verbatim>\<open>onDisable\<close>, \<^verbatim>\<open>plugin:disabled\<close> and \<open>DISABLED\<close>.
\<close>

theorem C1_from_error_state:
  assumes "get n w = Some a" and "state (heap w a) = ERROR"
  shows "hooksOf (trace (snd (enablePlugin n w))) =
           hooksOf (trace w) @
             (case onEnable (plugin (heap w a)) of None \<Rightarrow> [] | Some f \<Rightarrow> [(a, OnEnable)])
       \<and> (outcome (onEnable (plugin (heap w a))) (trace w) = None \<longrightarrow>
            emitsOf (trace (snd (enablePlugin n w))) =
              emitsOf (trace w) @ [(PluginEnabled, [(''name'', n)])])
       \<and> (outcome (onEnable (plugin (heap w a))) (trace w) = None
            \<and> (\<forall>l\<in>set (listenersOf PluginEnabled w). quiet l) \<longrightarrow>
            fst (enablePlugin n w) = Inr ()
          \<and> state (heap (snd (enablePlugin n w)) a) = ENABLED)
       \<and> (outcome (onEnable (plugin (heap w a))) (trace w) \<noteq> None
            \<or> (\<exists>l\<in>set (listenersOf PluginEnabled w). loud l) \<longrightarrow>
            isl (fst (enablePlugin n w))
          \<and> state (heap (snd (enablePlugin n w)) a) = ERROR)
       \<and> state (heap (snd (enablePlugin n w)) a) =
           (if isl (fst (enablePlugin n w)) then ERROR else ENABLED)
       \<and> hooksOf (trace (snd (disablePlugin n w))) =
           hooksOf (trace w) @
             (case onDisable (plugin (heap w a)) of None \<Rightarrow> [] | Some f \<Rightarrow> [(a, OnDisable)])
       \<and> (outcome (onDisable (plugin (heap w a))) (trace w) = None \<longrightarrow>
            emitsOf (trace (snd (disablePlugin n w))) =
              emitsOf (trace w) @ [(PluginDisabled, [(''name'', n)])])
       \<and> (outcome (onDisable (plugin (heap w a))) (trace w) = None
            \<and> (\<forall>l\<in>set (listenersOf PluginDisabled w). quiet l) \<longrightarrow>
            fst (disablePlugin n w) = Inr ()
          \<and> state (heap (snd (disablePlugin n w)) a) = DISABLED)
       \<and> (outcome (onDisable (plugin (heap w a))) (trace w) \<noteq> None
            \<or> (\<exists>l\<in>set (listenersOf PluginDisabled w). loud l) \<longrightarrow>
            isl (fst (disablePlugin n w))
          \<and> state (heap (snd (disablePlugin n w)) a) = ERROR)
       \<and> state (heap (snd (disablePlugin n w)) a) =
           (if isl (fst (disablePlugin n w)) then ERROR else DISABLED)"
proof -
  have ne: "state (heap w a) \<noteq> ENABLED" "state (heap w a) \<noteq> DISABLED"
    "state (heap w a) \<noteq> LOADED"
    using assms(2) by simp_all
  note en = enablePlugin_run [OF assms(1) ne(1)]
  note di = disablePlugin_run [OF assms(1) ne(2) ne(3)]
  have en_fail: "isl (fst (enablePlugin n w))"
    if "outcome (onEnable (plugin (heap w a))) (trace w) \<noteq> None
          \<or> (\<exists>l\<in>set (listenersOf PluginEnabled w). loud l)"
  proof (cases "outcome (onEnable (plugin (heap w a))) (trace w)")
    case None
    with that en(6) show ?thesis by simp
  next
    case (Some e)
    with en(3) show ?thesis by simp
  qed
  have di_fail: "isl (fst (disablePlugin n w))"
    if "outcome (onDisable (plugin (heap w a))) (trace w) \<noteq> None
          \<or> (\<exists>l\<in>set (listenersOf PluginDisabled w). loud l)"
  proof (cases "outcome (onDisable (plugin (heap w a))) (trace w)")
    case None
    with that di(6) show ?thesis by simp
  next
    case (Some e)
    with di(3) show ?thesis by simp
  qed
  show ?thesis
    using en(1,2,4,5) di(1,2,4,5) en_fail di_fail by simp
qed

text \<open>
  The theorem at the error state reached by a failed disable: enabling succeeds, emits
  \<^verbatim>\<open>plugin:enabled\<close> and gives \<open>ENABLED\<close>; disabling invokes the hook
  again, fails again and stays in \<open>ERROR\<close>.
\<close>

theorem C1_from_error_state_witness:
  "get ''p'' afterFailedDisable = Some 0
   \<and> state (heap afterFailedDisable 0) = ERROR
   \<and> fst (enablePlugin ''p'' afterFailedDisable) = Inr ()
   \<and> state (heap (snd (enablePlugin ''p'' afterFailedDisable)) 0) = ENABLED
   \<and> emitsOf (trace (snd (enablePlugin ''p'' afterFailedDisable))) =
       emitsOf (trace afterFailedDisable) @ [(PluginEnabled, [(''name'', ''p'')])]
   \<and> hooksOf (trace (snd (disablePlugin ''p'' afterFailedDisable))) =
       hooksOf (trace afterFailedDisable) @ [(0, OnDisable)]
   \<and> state (heap (snd (disablePlugin ''p'' afterFailedDisable)) 0) = ERROR"
  using C1_from_error_state [of "''p''" afterFailedDisable 0]
  by (simp add: afterFailedDisable_def outcome_def example_defs model_defs)

text \<open>
  C1 as stated fails: after load, enable and a disable whose hook rejects, the instance is
  in state \<open>ERROR\<close>, and one \<^verbatim>\<open>enablePlugin\<close> call returns normally with the
  instance in state \<open>ENABLED\<close>.
\<close>

theorem C1_counterexample:
  "get ''p'' afterFailedDisable = Some 0
   \<and> state (heap afterFailedDisable 0) = ERROR
   \<and> fst (enablePlugin ''p'' afterFailedDisable) = Inr ()
   \<and> state (heap (snd (enablePlugin ''p'' afterFailedDisable)) 0) = ENABLED"
  by (simp add: afterFailedDisable_def example_defs model_defs)

text \<open>
  C2 (as amended). When the \<^verbatim>\<open>onLoad\<close> hook rejects, \<^verbatim>\<open>loadPlugin\<close>
  fails, the new instance is in state \<open>ERROR\<close>, the registry is unchanged and no
  \<^verbatim>\<open>plugin:loaded\<close> is emitted; the failure is a \<open>PluginLoadError\<close> naming
  the plugin whenever the message of the rejection can be read, that is, whenever the
  hook did not reject with \<^verbatim>\<open>undefined\<close> or \<^verbatim>\<open>null\<close>. When
  \<^verbatim>\<open>onLoad\<close> resolves or is absent, the instance is registered under its name
  and \<^verbatim>\<open>plugin:loaded\<close> is emitted exactly once; if moreover no listener of
  \<^verbatim>\<open>plugin:loaded\<close> throws, \<^verbatim>\<open>loadPlugin\<close> returns the instance and
  its state is \<open>LOADED\<close>.
\<close>

theorem C2_loadPlugin_outcomes:
  "(outcome (onLoad pl) (trace w) = Some e \<longrightarrow>
      isl (fst (loadPlugin pl md pth w))
    \<and> (\<forall>msg. messageOf e = Inr msg \<longrightarrow>
          fst (loadPlugin pl md pth w) =
            Inl (newPluginLoadError (PluginMetadata.name md) msg))
    \<and> (\<forall>msg. e = Error msg \<longrightarrow>
          fst (loadPlugin pl md pth w) = Inl (PluginLoadError (PluginMetadata.name md) msg))
    \<and> state (heap (snd (loadPlugin pl md pth w)) (nextAddr w)) = ERROR
    \<and> plugins (snd (loadPlugin pl md pth w)) = plugins w
    \<and> emitsOf (trace (snd (loadPlugin pl md pth w))) = emitsOf (trace w))
   \<and> (outcome (onLoad pl) (trace w) = None \<longrightarrow>
      get (PluginMetadata.name md) (snd (loadPlugin pl md pth w)) = Some (nextAddr w)
    \<and> plugin (heap (snd (loadPlugin pl md pth w)) (nextAddr w)) = pl
    \<and> metadata (heap (snd (loadPlugin pl md pth w)) (nextAddr w)) = md
    \<and> emitsOf (trace (snd (loadPlugin pl md pth w))) =
        emitsOf (trace w) @
          [(PluginLoaded, [(''name'', PluginMetadata.name md),
                           (''version'', PluginMetadata.version md)])]
    \<and> ((\<forall>l\<in>set (listenersOf PluginLoaded w). quiet l) \<longrightarrow>
          fst (loadPlugin pl md pth w) = Inr (nextAddr w)
        \<and> state (heap (snd (loadPlugin pl md pth w)) (nextAddr w)) = LOADED))"
proof (intro conjI impI allI)
  assume rej: "outcome (onLoad pl) (trace w) = Some e"
  note lp = loadPlugin_rejected [OF rej, of md pth]
  show "isl (fst (loadPlugin pl md pth w))"
    using lp(1) by simp
  show "fst (loadPlugin pl md pth w) = Inl (newPluginLoadError (PluginMetadata.name md) msg)"
    if "messageOf e = Inr msg" for msg
    using lp(1) that by (simp add: rethrow_def)
  show "fst (loadPlugin pl md pth w) = Inl (PluginLoadError (PluginMetadata.name md) msg)"
    if "e = Error msg" for msg
    using lp(1) that by (simp add: rethrow_def newPluginLoadError_def)
  show "state (heap (snd (loadPlugin pl md pth w)) (nextAddr w)) = ERROR"
    by (rule lp(3))
  show "plugins (snd (loadPlugin pl md pth w)) = plugins w"
    by (rule lp(2))
  show "emitsOf (trace (snd (loadPlugin pl md pth w))) = emitsOf (trace w)"
    by (rule lp(4))
next
  assume ok: "outcome (onLoad pl) (trace w) = None"
  note lp = loadPlugin_resolved [OF ok, of md pth]
  show "get (PluginMetadata.name md) (snd (loadPlugin pl md pth w)) = Some (nextAddr w)"
    by (simp add: get_def lp(1) update_conv')
  show "plugin (heap (snd (loadPlugin pl md pth w)) (nextAddr w)) = pl"
    by (rule lp(2))
  show "metadata (heap (snd (loadPlugin pl md pth w)) (nextAddr w)) = md"
    by (rule lp(3))
  show "emitsOf (trace (snd (loadPlugin pl md pth w))) =
        emitsOf (trace w) @
          [(PluginLoaded, [(''name'', PluginMetadata.name md),
                           (''version'', PluginMetadata.version md)])]"
    by (rule lp(4))
  assume q: "\<forall>l\<in>set (listenersOf PluginLoaded w). quiet l"
  show first: "fst (loadPlugin pl md pth w) = Inr (nextAddr w)"
    using q by (rule lp(6))
  show "state (heap (snd (loadPlugin pl md pth w)) (nextAddr w)) = LOADED"
    using lp(5) first by simp
qed

text \<open>
  The theorem at a plugin whose \<^verbatim>\<open>onLoad\<close> rejects with an error and at a
  plugin without hooks, both loaded into the empty registry with nobody listening.
\<close>

theorem C2_loadPlugin_outcomes_witness:
  "fst (loadPlugin brokenLoad (metaOf ''p'' ''1.0.0'') ''plugins/p'' emptyWorld) =
     Inl (PluginLoadError ''p'' ''boom'')
   \<and> state (heap (snd (loadPlugin brokenLoad (metaOf ''p'' ''1.0.0'') ''plugins/p'' emptyWorld)) 0)
       = ERROR
   \<and> plugins (snd (loadPlugin brokenLoad (metaOf ''p'' ''1.0.0'') ''plugins/p'' emptyWorld)) = []
   \<and> fst (loadPlugin (plain ''p'' ''1.0.0'') (metaOf ''p'' ''1.0.0'') ''plugins/p'' emptyWorld) =
       Inr 0
   \<and> state (heap (snd (loadPlugin (plain ''p'' ''1.0.0'') (metaOf ''p'' ''1.0.0'') ''plugins/p''
         emptyWorld)) 0) = LOADED
   \<and> get ''p'' (snd (loadPlugin (plain ''p'' ''1.0.0'') (metaOf ''p'' ''1.0.0'') ''plugins/p''
         emptyWorld)) = Some 0
   \<and> emitsOf (trace (snd (loadPlugin (plain ''p'' ''1.0.0'') (metaOf ''p'' ''1.0.0'')
         ''plugins/p'' emptyWorld))) =
       [(PluginLoaded, [(''name'', ''p''), (''version'', ''1.0.0'')])]"
  using C2_loadPlugin_outcomes [of brokenLoad emptyWorld "Error ''boom''"
          "metaOf ''p'' ''1.0.0''" "''plugins/p''"]
        C2_loadPlugin_outcomes [of "plain ''p'' ''1.0.0''" emptyWorld "Error ''boom''"
          "metaOf ''p'' ''1.0.0''" "''plugins/p''"]
  by (simp add: outcome_def quiet_def example_defs model_defs)

text \<open>
  C2 as stated fails twice. With a throwing listener subscribed to
  \<^verbatim>\<open>plugin:loaded\<close>, a plugin without \<^verbatim>\<open>onLoad\<close> is registered, the
  emission throws inside the \<^verbatim>\<open>try\<close>, the handler sets the state to
  \<open>ERROR\<close> and \<^verbatim>\<open>loadPlugin\<close> fails. And when \<^verbatim>\<open>onLoad\<close>
  rejects with \<^verbatim>\<open>undefined\<close>, the handler's
  \<^verbatim>\<open>(error as Error).message\<close> throws, so \<^verbatim>\<open>loadPlugin\<close> fails with a
  \<open>TypeError\<close>, not a \<open>PluginLoadError\<close>.
\<close>

theorem C2_counterexample:
  "outcome (onLoad (plain ''p'' ''1.0.0'')) (trace noisyWorld) = None
   \<and> fst (loadPlugin (plain ''p'' ''1.0.0'') (metaOf ''p'' ''1.0.0'') ''plugins/p'' noisyWorld) =
       Inl (PluginLoadError ''p'' ''boom'')
   \<and> state (heap (snd (loadPlugin (plain ''p'' ''1.0.0'') (metaOf ''p'' ''1.0.0'') ''plugins/p''
         noisyWorld)) 0) = ERROR
   \<and> get ''p'' (snd (loadPlugin (plain ''p'' ''1.0.0'') (metaOf ''p'' ''1.0.0'') ''plugins/p''
         noisyWorld)) = Some 0
   \<and> outcome (onLoad nullishLoad) (trace emptyWorld) = Some Undefined
   \<and> fst (loadPlugin nullishLoad (metaOf ''p'' ''1.0.0'') ''plugins/p'' emptyWorld) =
       Inl (TypeError (cannotRead ''undefined''))"
  by (simp add: outcome_def example_defs model_defs)

text \<open>
  C3. For a registered plugin in state \<open>ENABLED\<close> whose \<^verbatim>\<open>onDisable\<close>
  hook rejects, with whatever value, \<^verbatim>\<open>unloadPlugin\<close> throws a
  \<open>PluginLifecycleError\<close> for \<^verbatim>\<open>onUnload\<close> that wraps the message of what
  the failed disable threw (for a rejection with an error of message \<open>msg\<close>, the
  message \<open>msg (onDisable): n\<close>), the state of the instance is \<open>ERROR\<close>, the
  only hook invoked is \<^verbatim>\<open>onDisable\<close> (so \<^verbatim>\<open>onUnload\<close> never runs), no
  event is emitted, and the instance is still registered.
\<close>

theorem C3_unload_aborts_on_failed_disable:
  assumes "get n w = Some a" and "state (heap w a) = ENABLED"
    and "outcome (onDisable (plugin (heap w a))) (trace w) = Some e"
  shows "fst (unloadPlugin n w) =
           Inl (rethrow (newPluginLifecycleError n ''onUnload'')
                  (rethrow (newPluginLifecycleError n ''onDisable'') e))
       \<and> (\<exists>msg. fst (unloadPlugin n w) = Inl (PluginLifecycleError n ''onUnload'' msg))
       \<and> (\<forall>msg. e = Error msg \<longrightarrow>
             fst (unloadPlugin n w) =
               Inl (PluginLifecycleError n ''onUnload'' (msg @ '' (onDisable): '' @ n)))
       \<and> state (heap (snd (unloadPlugin n w)) a) = ERROR
       \<and> hooksOf (trace (snd (unloadPlugin n w))) = hooksOf (trace w) @ [(a, OnDisable)]
       \<and> emitsOf (trace (snd (unloadPlugin n w))) = emitsOf (trace w)
       \<and> plugins (snd (unloadPlugin n w)) = plugins w
       \<and> get n (snd (unloadPlugin n w)) = Some a"
proof -
  let ?w = "w\<lparr>calls := calls w @ [n]\<rparr>"
  let ?inner = "rethrow (newPluginLifecycleError n ''onDisable'') e"
  have g: "get n ?w = Some a" and st: "state (heap ?w a) = ENABLED"
    and oc: "outcome (onDisable (plugin (heap ?w a))) (trace ?w) = Some e"
    using assms by (simp_all add: get_def)
  note d = disablePlugin_rejected [OF g st oc]
  have u: "unloadPlugin n w =
             (Inl (rethrow (newPluginLifecycleError n ''onUnload'') ?inner),
              setState a ERROR (snd (disablePlugin n ?w)))"
    using g st d(1)
    by (simp add: unloadPlugin_def tryCatch_def andThen_def Let_def case_prod_beta)
  obtain m where m: "messageOf ?inner = Inr (Some m)"
    using rethrow_lifecycle_message by blast
  have wrapped: "rethrow (newPluginLifecycleError n ''onUnload'') ?inner =
                   PluginLifecycleError n ''onUnload'' m"
    using m by (simp add: rethrow_def [of _ ?inner] newPluginLifecycleError_def)
  have str: "\<forall>msg. e = Error msg \<longrightarrow>
               rethrow (newPluginLifecycleError n ''onUnload'') ?inner =
                 PluginLifecycleError n ''onUnload'' (msg @ '' (onDisable): '' @ n)"
    by (simp add: rethrow_def newPluginLifecycleError_def)
  show ?thesis
    using d(3,4) assms(1) wrapped str by (simp add: u get_def)
qed

text \<open>
  The theorem at \<open>flaky\<close>, loaded and enabled, whose \<^verbatim>\<open>onDisable\<close> rejects.
\<close>

theorem C3_unload_aborts_on_failed_disable_witness:
  "get ''p'' enabledFlaky = Some 0
   \<and> state (heap enabledFlaky 0) = ENABLED
   \<and> fst (unloadPlugin ''p'' enabledFlaky) =
       Inl (PluginLifecycleError ''p'' ''onUnload'' ''boom (onDisable): p'')
   \<and> state (heap (snd (unloadPlugin ''p'' enabledFlaky)) 0) = ERROR
   \<and> hooksOf (trace (snd (unloadPlugin ''p'' enabledFlaky))) = [(0, OnDisable)]
   \<and> get ''p'' (snd (unloadPlugin ''p'' enabledFlaky)) = Some 0"
  using C3_unload_aborts_on_failed_disable [of "''p''" enabledFlaky 0 "Error ''boom''"]
  by (simp add: outcome_def example_defs model_defs)

text \<open>
  C4. \<^verbatim>\<open>unloadAllPlugins\<close> never throws, and it calls \<^verbatim>\<open>unloadPlugin\<close>
  once for every registered instance, with the names of the instances in the reverse of
  the registry's order, whatever the individual calls do.
\<close>

theorem C4_unloadAll_reverse_order:
  "fst (unloadAllPlugins w) = Inr ()
   \<and> calls (snd (unloadAllPlugins w)) =
       calls w @ rev (map (\<lambda>a. PluginMetadata.name (metadata (heap w a))) (getAll w))"
  by (simp add: unloadAllPlugins_def unloadEach_calls rev_map)

text \<open>
  The theorem at three loaded plugins of which the middle one cannot be unloaded: the
  sweep visits \<open>c\<close>, \<open>b\<close>, \<open>a\<close>, returns normally, and leaves \<open>b\<close>
  registered in state \<open>ERROR\<close>.
\<close>

theorem C4_unloadAll_reverse_order_witness:
  "map fst (plugins threeLoaded) = [''a'', ''b'', ''c'']
   \<and> fst (unloadAllPlugins threeLoaded) = Inr ()
   \<and> calls (snd (unloadAllPlugins threeLoaded)) = [''c'', ''b'', ''a'']
   \<and> plugins (snd (unloadAllPlugins threeLoaded)) = [(''b'', 1)]
   \<and> state (heap (snd (unloadAllPlugins threeLoaded)) 1) = ERROR"
  using C4_unloadAll_reverse_order [of threeLoaded]
  by (simp add: unloadAllPlugins_def getAll_def AList.delete_eq example_defs model_defs)




text \<open>
  C6, evaluated where it fails. The module exports version \<open>2.0.0\<close>, the descriptor
  says \<open>1.0.0\<close>; the names agree. \<^verbatim>\<open>loadPluginFromDirectory\<close> checks the
  name only (see \<open>loadPluginFromDirectory_name_mismatch\<close>), so it returns the plugin,
  and \<^verbatim>\<open>loadAllPlugins\<close> reports a success.
\<close>

theorem C6_version_mismatch_is_loaded:
  "Plugin.version (plain ''p'' ''2.0.0'') \<noteq> PluginMetadata.version (metaOf ''p'' ''1.0.0'')
   \<and> loadPluginFromDirectory (singleFs (descriptor ''p'' ''1.0.0'') (plain ''p'' ''2.0.0''))
         ''plugins/p'' = Inr (Some (plain ''p'' ''2.0.0'', metaOf ''p'' ''1.0.0''))
   \<and> fst (loadAllPlugins loader (singleFs (descriptor ''p'' ''1.0.0'') (plain ''p'' ''2.0.0''))
         emptyWorld) = Inr [\<lparr>success = True, pluginName = ''p'', error = None\<rparr>]"
  by (simp add: fs_defs loader_defs example_defs model_defs)

text \<open>
  C7 (as amended). \<^verbatim>\<open>emitEvent\<close> returns normally, with the answer whether the
  event had listeners, when no listener of the event throws. A failure of a listener is
  not contained: when some listener of the event throws whenever it is invoked,
  \<^verbatim>\<open>emitEvent\<close> throws; when the first listener of the event throws,
  \<^verbatim>\<open>emitEvent\<close> throws what the listener threw and no later listener is
  invoked.
\<close>

theorem C7_emitEvent_listener_failure:
  "((\<forall>l\<in>set (listenersOf ev w). quiet l) \<longrightarrow>
       fst (emitEvent ev p w) = Inr (listenersOf ev w \<noteq> []))
   \<and> ((\<exists>l\<in>set (listenersOf ev w). loud l) \<longrightarrow> isl (fst (emitEvent ev p w)))
   \<and> (listenersOf ev w = l # ls \<and> run l (trace w @ [Emit ev p]) = Some e \<longrightarrow>
       fst (emitEvent ev p w) = Inl e
     \<and> trace (snd (emitEvent ev p w)) = trace w @ [Emit ev p, Deliver (lid l) ev p])"
proof (intro conjI impI)
  show "fst (emitEvent ev p w) = Inr (listenersOf ev w \<noteq> [])"
    if "\<forall>l\<in>set (listenersOf ev w). quiet l"
    using that by (rule emitEvent_quiet)
  show "isl (fst (emitEvent ev p w))" if "\<exists>l\<in>set (listenersOf ev w). loud l"
    using that by (rule emitEvent_loud)
next
  assume first: "listenersOf ev w = l # ls \<and> run l (trace w @ [Emit ev p]) = Some e"
  then show "fst (emitEvent ev p w) = Inl e"
    by (simp add: emitEvent_def andThen_def Let_def)
  from first show "trace (snd (emitEvent ev p w)) = trace w @ [Emit ev p, Deliver (lid l) ev p]"
    by (simp add: emitEvent_def andThen_def Let_def)
qed

text \<open>
  The theorem on a bus with one quiet listener, on a bus without listeners, on a bus whose
  second listener throws, and on a bus whose first listener throws.
\<close>

theorem C7_emitEvent_listener_failure_witness:
  "fst (emitEvent PluginEnabled [(''name'', ''p'')]
         (emptyWorld\<lparr>listeners := [(PluginEnabled, calmListener)]\<rparr>)) = Inr True
   \<and> fst (emitEvent PluginEnabled [(''name'', ''p'')] emptyWorld) = Inr False
   \<and> fst (emitEvent PluginEnabled [(''name'', ''p'')]
         (emptyWorld\<lparr>listeners := [(PluginEnabled, calmListener), (PluginEnabled, boomListener)]\<rparr>))
       = Inl (Error ''boom'')
   \<and> fst (emitEvent PluginEnabled [(''name'', ''p'')]
         (emptyWorld\<lparr>listeners := [(PluginEnabled, boomListener), (PluginEnabled, calmListener)]\<rparr>))
       = Inl (Error ''boom'')
   \<and> trace (snd (emitEvent PluginEnabled [(''name'', ''p'')]
         (emptyWorld\<lparr>listeners := [(PluginEnabled, boomListener), (PluginEnabled, calmListener)]\<rparr>)))
       = [Emit PluginEnabled [(''name'', ''p'')], Deliver 0 PluginEnabled [(''name'', ''p'')]]"
  using C7_emitEvent_listener_failure [of PluginEnabled
          "emptyWorld\<lparr>listeners := [(PluginEnabled, calmListener)]\<rparr>" "[(''name'', ''p'')]"
          calmListener "[]" "Error ''boom''"]
        C7_emitEvent_listener_failure [of PluginEnabled emptyWorld "[(''name'', ''p'')]"
          calmListener "[]" "Error ''boom''"]
        C7_emitEvent_listener_failure [of PluginEnabled
          "emptyWorld\<lparr>listeners := [(PluginEnabled, calmListener), (PluginEnabled, boomListener)]\<rparr>"
          "[(''name'', ''p'')]" boomListener "[calmListener]" "Error ''boom''"]
        C7_emitEvent_listener_failure [of PluginEnabled
          "emptyWorld\<lparr>listeners := [(PluginEnabled, boomListener), (PluginEnabled, calmListener)]\<rparr>"
          "[(''name'', ''p'')]" boomListener "[calmListener]" "Error ''boom''"]
  by (simp add: quiet_def loud_def example_defs model_defs)

text \<open>
  C7 as stated fails: with one throwing listener subscribed, \<^verbatim>\<open>emitEvent\<close>
  throws the listener's error.
\<close>

theorem C7_counterexample:
  "listenersOf PluginLoaded noisyWorld = [boomListener]
   \<and> run boomListener (trace noisyWorld @ [Emit PluginLoaded [(''name'', ''p''), (''version'', ''1.0.0'')]])
       = Some (Error ''boom'')
   \<and> fst (emitEvent PluginLoaded [(''name'', ''p''), (''version'', ''1.0.0'')] noisyWorld) =
       Inl (Error ''boom'')"
  by (simp add: example_defs model_defs)

text \<open>
  C8 (as amended). For a registered plugin that is not yet enabled, whose
  \<^verbatim>\<open>onEnable\<close> hook resolves or is absent, and with no throwing listener of
  \<^verbatim>\<open>plugin:enabled\<close>: the first \<^verbatim>\<open>enablePlugin\<close> call succeeds and
  leaves the plugin \<open>ENABLED\<close>, and the second call is a no-op that returns normally
  and changes nothing. Over the two calls the \<^verbatim>\<open>onEnable\<close> hook (when the
  plugin has one) is invoked exactly once and \<^verbatim>\<open>plugin:enabled\<close> is emitted
  exactly once.
\<close>

theorem C8_enable_twice:
  assumes "get n w = Some a" and "state (heap w a) \<noteq> ENABLED"
    and "outcome (onEnable (plugin (heap w a))) (trace w) = None"
    and "\<forall>l\<in>set (listenersOf PluginEnabled w). quiet l"
  shows "fst (enablePlugin n w) = Inr ()
       \<and> state (heap (snd (enablePlugin n w)) a) = ENABLED
       \<and> enablePlugin n (snd (enablePlugin n w)) = (Inr (), snd (enablePlugin n w))
       \<and> hooksOf (trace (snd (enablePlugin n (snd (enablePlugin n w))))) =
           hooksOf (trace w) @
             (case onEnable (plugin (heap w a)) of None \<Rightarrow> [] | Some f \<Rightarrow> [(a, OnEnable)])
       \<and> emitsOf (trace (snd (enablePlugin n (snd (enablePlugin n w))))) =
           emitsOf (trace w) @ [(PluginEnabled, [(''name'', n)])]"
proof -
  note en = enablePlugin_run [OF assms(1,2)]
  have first: "fst (enablePlugin n w) = Inr ()"
    using en(5) assms(3,4) by simp
  have st: "state (heap (snd (enablePlugin n w)) a) = ENABLED"
    using en(2) first by simp
  have second: "enablePlugin n (snd (enablePlugin n w)) = (Inr (), snd (enablePlugin n w))"
    using assms(1) st by (simp add: enablePlugin_def [of n "snd (enablePlugin n w)"])
  show ?thesis
    using first st en(1) en(4) assms(3) by (simp add: second)
qed

text \<open>
  The theorem at a freshly loaded plugin with an \<^verbatim>\<open>onEnable\<close> hook that
  resolves.
\<close>

theorem C8_enable_twice_witness:
  "get ''p'' loadedWorld = Some 0
   \<and> state (heap loadedWorld 0) = LOADED
   \<and> state (heap (snd (enablePlugin ''p'' loadedWorld)) 0) = ENABLED
   \<and> hooksOf (trace (snd (enablePlugin ''p'' (snd (enablePlugin ''p'' loadedWorld))))) =
       [(0, OnEnable)]
   \<and> emitsOf (trace (snd (enablePlugin ''p'' (snd (enablePlugin ''p'' loadedWorld))))) =
       [(PluginLoaded, [(''name'', ''p''), (''version'', ''1.0.0'')]),
        (PluginEnabled, [(''name'', ''p'')])]"
  using C8_enable_twice [of "''p''" loadedWorld 0]
  by (simp add: outcome_def quiet_def example_defs model_defs)

text \<open>
  C8 as stated fails: for a loaded plugin whose \<^verbatim>\<open>onEnable\<close> rejects, the
  first call fails and leaves state \<open>ERROR\<close>, the second call is not a no-op, and
  over the two calls the hook is invoked twice and \<^verbatim>\<open>plugin:enabled\<close> is
  never emitted.
\<close>

theorem C8_counterexample:
  "get ''p'' loadedBroken = Some 0
   \<and> state (heap loadedBroken 0) = LOADED
   \<and> isl (fst (enablePlugin ''p'' loadedBroken))
   \<and> isl (fst (enablePlugin ''p'' (snd (enablePlugin ''p'' loadedBroken))))
   \<and> hooksOf (trace (snd (enablePlugin ''p'' (snd (enablePlugin ''p'' loadedBroken))))) =
       [(0, OnEnable), (0, OnEnable)]
   \<and> emitsOf (trace (snd (enablePlugin ''p'' (snd (enablePlugin ''p'' loadedBroken))))) =
       [(PluginLoaded, [(''name'', ''p''), (''version'', ''1.0.0'')])]"
  by (simp add: example_defs model_defs)

text \<open>
  C9. For a directory whose descriptor is an object with a non-empty string
  \<^verbatim>\<open>name\<close> and \<^verbatim>\<open>version\<close>: when the descriptor has no
  \<^verbatim>\<open>enabled\<close> field, the validated metadata has \<open>enabled = True\<close>, the
  directory is not skipped, and with a matching entry module it is handed on for loading;
  when the descriptor has \<^verbatim>\<open>enabled: false\<close>, the directory is skipped without
  an error, and the loop over the directories behaves as if it were not there: no result
  entry, no change of the registry.
\<close>

theorem C9_enabled_flag:
  assumes "existsSync fs (path_join fs d PLUGIN_CONFIG_FILE)"
    and "readJson fs (path_join fs d PLUGIN_CONFIG_FILE) = Inr (JObj kvs)"
    and "getProp (JObj kvs) ''name'' = Some (JStr n)" and "n \<noteq> []"
    and "getProp (JObj kvs) ''version'' = Some (JStr v)" and "v \<noteq> []"
  shows "(getProp (JObj kvs) ''enabled'' = None \<longrightarrow>
            validateMetadata (JObj kvs) d =
              Inr \<lparr>PluginMetadata.name = n, version = v,
                    description = stringOrUndefined (getProp (JObj kvs) ''description''),
                    enabled = True,
                    author = stringOrUndefined (getProp (JObj kvs) ''author'')\<rparr>
          \<and> loadPluginFromDirectory fs d \<noteq> Inr None
          \<and> fst (loadOne L fs d w) \<noteq> Inr None
          \<and> ((existsSync fs (path_join fs d ''index.ts'')
                \<or> existsSync fs (path_join fs d ''index.js''))
               \<and> importModule fs (if existsSync fs (path_join fs d ''index.ts'')
                                    then path_join fs d ''index.ts''
                                    else path_join fs d ''index.js'') = Inr (Some pl)
               \<and> Plugin.name pl = n \<longrightarrow>
              loadPluginFromDirectory fs d =
                Inr (Some (pl,
                  \<lparr>PluginMetadata.name = n, version = v,
                    description = stringOrUndefined (getProp (JObj kvs) ''description''),
                    enabled = True,
                    author = stringOrUndefined (getProp (JObj kvs) ''author'')\<rparr>))
            \<and> loadOne L fs d w =
                andThen (loadPlugin pl
                  \<lparr>PluginMetadata.name = n, version = v,
                    description = stringOrUndefined (getProp (JObj kvs) ''description''),
                    enabled = True,
                    author = stringOrUndefined (getProp (JObj kvs) ''author'')\<rparr> d) (\<lambda>_.
                andThen (if autoEnable L then enablePlugin n else ret ()) (\<lambda>_.
                ret (Some n))) w))
       \<and> (getProp (JObj kvs) ''enabled'' = Some (JBool False) \<longrightarrow>
            loadPluginFromDirectory fs d = Inr None
          \<and> loadOne L fs d w = (Inr None, w)
          \<and> (\<forall>u. loadEach L fs (d # ds) rs u = loadEach L fs ds rs u)
          \<and> (existsSync fs (pluginsDir L) \<and> readdirSync fs (pluginsDir L) = Inr entries
               \<and> pluginDirs L fs entries = d # ds \<longrightarrow>
               loadAllPlugins L fs w =
                 (Inr (fst (loadEach L fs ds [] w)), snd (loadEach L fs ds [] w))))"
proof (intro conjI impI)
  note v = validateMetadata_valid [OF assms(3-6), of d]
  {
    assume omitted: "getProp (JObj kvs) ''enabled'' = None"
    show "validateMetadata (JObj kvs) d =
              Inr \<lparr>PluginMetadata.name = n, version = v,
                    description = stringOrUndefined (getProp (JObj kvs) ''description''),
                    enabled = True,
                    author = stringOrUndefined (getProp (JObj kvs) ''author'')\<rparr>"
      using v omitted by simp
    show np: "loadPluginFromDirectory fs d \<noteq> Inr None"
      using assms(1,2) v omitted
      by (simp add: loadPluginFromDirectory_def Let_def split: sum.splits option.splits)
    show "fst (loadOne L fs d w) \<noteq> Inr None"
      using np
      by (cases "loadPluginFromDirectory fs d")
         (auto simp add: loadOne_def andThen_def lift_def ret_def case_prod_beta
            split: sum.splits option.splits)
    assume module: "(existsSync fs (path_join fs d ''index.ts'')
                \<or> existsSync fs (path_join fs d ''index.js''))
               \<and> importModule fs (if existsSync fs (path_join fs d ''index.ts'')
                                    then path_join fs d ''index.ts''
                                    else path_join fs d ''index.js'') = Inr (Some pl)
               \<and> Plugin.name pl = n"
    show found: "loadPluginFromDirectory fs d =
                Inr (Some (pl,
                  \<lparr>PluginMetadata.name = n, version = v,
                    description = stringOrUndefined (getProp (JObj kvs) ''description''),
                    enabled = True,
                    author = stringOrUndefined (getProp (JObj kvs) ''author'')\<rparr>))"
      using module assms(1,2) v omitted
      by (auto simp add: loadPluginFromDirectory_def Let_def)
    show "loadOne L fs d w =
                andThen (loadPlugin pl
                  \<lparr>PluginMetadata.name = n, version = v,
                    description = stringOrUndefined (getProp (JObj kvs) ''description''),
                    enabled = True,
                    author = stringOrUndefined (getProp (JObj kvs) ''author'')\<rparr> d) (\<lambda>_.
                andThen (if autoEnable L then enablePlugin n else ret ()) (\<lambda>_.
                ret (Some n))) w"
      by (simp add: loadOne_def found andThen_def [of "lift _"] lift_def)
  }
  {
    assume off: "getProp (JObj kvs) ''enabled'' = Some (JBool False)"
    show skip: "loadPluginFromDirectory fs d = Inr None"
      using assms(1,2) v off by (simp add: loadPluginFromDirectory_def Let_def)
    show one: "loadOne L fs d w = (Inr None, w)"
      using skip by (simp add: loadOne_def andThen_def lift_def ret_def)
    have any: "\<And>u. loadOne L fs d u = (Inr None, u)"
      using skip by (simp add: loadOne_def andThen_def lift_def ret_def)
    show "\<forall>u. loadEach L fs (d # ds) rs u = loadEach L fs ds rs u"
      by (simp add: any)
    show "loadAllPlugins L fs w =
                 (Inr (fst (loadEach L fs ds [] w)), snd (loadEach L fs ds [] w))"
      if "existsSync fs (pluginsDir L) \<and> readdirSync fs (pluginsDir L) = Inr entries
               \<and> pluginDirs L fs entries = d # ds"
      using that by (simp add: loadAllPlugins_def any case_prod_beta)
  }
qed

text \<open>
  The theorem at a descriptor without the field, which ends up registered with a success
  entry, and at a descriptor with \<^verbatim>\<open>enabled: false\<close>, which leaves the empty
  result and the untouched state.
\<close>

theorem C9_enabled_flag_witness:
  "fst (loadAllPlugins loader (singleFs (descriptor ''p'' ''1.0.0'') (plain ''p'' ''1.0.0''))
          emptyWorld) = Inr [\<lparr>success = True, pluginName = ''p'', error = None\<rparr>]
   \<and> loadPluginFromDirectory (singleFs (descriptor ''p'' ''1.0.0'') (plain ''p'' ''1.0.0''))
         ''plugins/p'' = Inr (Some (plain ''p'' ''1.0.0'', metaOf ''p'' ''1.0.0''))
   \<and> get ''p'' (snd (loadAllPlugins loader
         (singleFs (descriptor ''p'' ''1.0.0'') (plain ''p'' ''1.0.0'')) emptyWorld)) = Some 0
   \<and> loadPluginFromDirectory (singleFs disabledDescriptor (plain ''p'' ''1.0.0''))
         ''plugins/p'' = Inr None
   \<and> loadAllPlugins loader (singleFs disabledDescriptor (plain ''p'' ''1.0.0'')) emptyWorld =
       (Inr [], emptyWorld)"
  using C9_enabled_flag [of "singleFs (descriptor ''p'' ''1.0.0'') (plain ''p'' ''1.0.0'')"
          "''plugins/p''" "[(''name'', JStr ''p''), (''version'', JStr ''1.0.0'')]"
          "''p''" "''1.0.0''" loader emptyWorld "plain ''p'' ''1.0.0''" "[]" "[]"
          "[(''p'', True)]"]
        C9_enabled_flag [of "singleFs disabledDescriptor (plain ''p'' ''1.0.0'')"
          "''plugins/p''"
          "[(''name'', JStr ''p''), (''version'', JStr ''1.0.0''), (''enabled'', JBool False)]"
          "''p''" "''1.0.0''" loader emptyWorld "plain ''p'' ''1.0.0''" "[]" "[]"
          "[(''p'', True)]"]
  by (simp add: fs_defs loader_defs example_defs model_defs)




end
